theory Spec2Isabelle
  imports Complex_Main "HOL-Library.Log_Nat"
begin

section \<open>Data model\<close>

text \<open>
  The development embeds the per-guild \<^verbatim>\<open>Player\<close> of the audio-session orchestrator
  (\<^verbatim>\<open>Player\<close>, its \<^verbatim>\<open>Connection\<close> and \<^verbatim>\<open>Filters\<close>, the REST calls they issue and
  \<^verbatim>\<open>Euralink.resolve\<close>) as pure functions on records.

  Conventions of the embedding:
  \<^item> a JavaScript object is a record, \<^verbatim>\<open>null\<close>/\<^verbatim>\<open>undefined\<close> is \<open>None\<close>;
  \<^item> numbers that count milliseconds, volumes and positions are \<open>int\<close>; equalizer gains are
    exact rationals (\<open>rat\<close>) standing for the doubles of the source; where the source
    rounds the result of a division and a multiplication of doubles (the fade-in ramp),
    the two operations are rounded to the nearest double as IEEE 754 does;
  \<^item> \<^verbatim>\<open>Date.now()\<close> is an explicit argument \<open>now\<close> of every function that reads the clock;
  \<^item> a \<^verbatim>\<open>throw\<close> is the left injection of a sum, carrying the error and the state reached
    before the throw (the mutations made so far persist in the source);
  \<^item> a REST call is recorded in the log \<open>requests\<close> of the node's REST client, in the order
    the calls to \<^verbatim>\<open>makeRequest\<close> are made (the transport-level retries inside one call are
    not separate entries); the flag \<open>failing\<close> says whether such a call rejects;
  \<^item> a timer (\<^verbatim>\<open>setTimeout\<close>) is a flag that the environment fires later by an explicit
    step; an \<^verbatim>\<open>async\<close> function is run as one atomic step (the Player is logically
    single-threaded), so timer-paced request sequences are logged as one block at the
    point where they start;
  \<^item> \<^verbatim>\<open>emit("debug", ...)\<close> logging, the bot activity status and the voice-channel status
    string are cosmetic and left out.
\<close>

subsection \<open>Tracks and history entries\<close>

record track_info =
  identifier_info :: string
  title :: string
  author :: string
  length_info :: int
  sourceName :: string

text \<open>\<open>encoded\<close> is the field \<^verbatim>\<open>track.track\<close>, the opaque blob the node consumes.\<close>

record track =
  encoded :: "string option"
  info :: track_info

record history_entry = track +
  playedAt :: int
  replayCount :: int

subsection \<open>Voice binding and outbound payloads\<close>

datatype connection_state = Disconnected | Connecting | Connected | Destroyed

datatype loop_mode = LoopNone | LoopTrack | LoopQueue

datatype error = Error string | RangeError string | TypeError string

text \<open>The field \<^verbatim>\<open>voice.event\<close> of the source is never written and stays \<^verbatim>\<open>null\<close>.\<close>

record voice_block =
  sessionId :: "string option"
  endpoint :: "string option"
  token :: "string option"

record band_gain =
  band :: nat
  gain :: rat

text \<open>
  The \<^verbatim>\<open>filters\<close> payload; of its ten blocks only \<^verbatim>\<open>volume\<close> and \<^verbatim>\<open>equalizer\<close> are
  modelled, the other eight are not written by the functions embedded here.
\<close>

record filters_payload =
  fp_volume :: rat
  fp_equalizer :: "band_gain list"

text \<open>
  The body of a \<^verbatim>\<open>PATCH .../players/{guildId}\<close>: every key is optional.
  \<open>upd_track = Some e\<close> is \<^verbatim>\<open>{track: {encoded: e}}\<close>.
\<close>

record update_data =
  upd_track :: "string option option"
  upd_position :: "int option"
  upd_paused :: "bool option"
  upd_volume :: "int option"
  upd_voice :: "voice_block option"
  upd_filters :: "filters_payload option"
  upd_timestamp :: "int option"

definition no_update :: update_data where
  "no_update = \<lparr>upd_track = None, upd_position = None, upd_paused = None, upd_volume = None,
     upd_voice = None, upd_filters = None, upd_timestamp = None\<rparr>"

datatype http_method = GET | PATCH | DELETE

record request =
  req_method :: http_method
  req_path :: string
  req_body :: "update_data option"

record rest =
  version :: string
  rest_sessionId :: "string option"
  requests :: "request list"
  failing :: bool

text \<open>The gateway command \<^verbatim>\<open>{op: 4, d: {...}}\<close> handed to the host's send callback.\<close>

record gateway_payload =
  guild_id :: string
  channel_id :: "string option"
  gw_self_mute :: bool
  gw_self_deaf :: bool

datatype emitted =
    PlayerCreateEv | PlayerDestroyEv | PlayerDisconnectEv | PlayerErrorEv
  | PlayerMoveEv "string option" "string option"
  | TrackStartEv | TrackEndEv | TrackErrorEv | QueueEndEv
  | ConnectionErrorEv | FiltersUpdatedEv | FiltersErrorEv

text \<open>
  The orchestrator as one Player sees it: \<open>players\<close> is the key set of the player map,
  \<open>sent\<close> the gateway commands sent, \<open>emitted\<close> the events emitted so far and
  \<open>deferred\<close> the events whose emission a timer has scheduled.
\<close>

record eura =
  players :: "string set"
  clientId :: string
  leastUsedNodes :: nat
  sent :: "gateway_payload list"
  emitted :: "emitted list"
  deferred :: "emitted list"

subsection \<open>Connection, Filters and Player\<close>

record voice_update =
  vu_voice :: voice_block
  vu_volume :: int
  vu_timestamp :: int

text \<open>
  \<open>conn_updateTimeout\<close> says that the 50 ms flush timer is armed; \<open>retryTimeout\<close> holds the
  delay of a pending retry timer.
\<close>

record connection =
  voice :: voice_block
  region :: "string option"
  self_deaf :: bool
  self_mute :: bool
  conn_voiceChannel :: "string option"
  connectionState :: connection_state
  lastUpdate :: int
  conn_reconnectAttempts :: nat
  conn_maxReconnectAttempts :: nat
  conn_updateQueue :: "voice_update list"
  conn_updateTimeout :: bool
  conn_batchUpdates :: bool
  retryTimeout :: "int option"

record filters =
  filters_volume :: rat
  equalizer :: "band_gain list"
  bassboost :: "rat option"

record player =
  eura :: eura
  rest :: rest
  guildId :: string
  textChannel :: "string option"
  voiceChannel :: "string option"
  connection :: connection
  filters :: filters
  mute :: bool
  deaf :: bool
  volume :: int
  fadeInMs :: int
  loop :: loop_mode
  queue :: "track option list"
  position :: int
  current :: "track option"
  previousTracks :: "history_entry list"
  historyLimit :: nat
  playing :: bool
  paused :: bool
  connected :: bool
  timestamp :: int
  isAutoplay :: bool
  preloadNext_enabled :: bool
  preloadNext_next :: "track option"
  updateQueue :: "update_data list"
  updateTimeout :: bool
  batchUpdates :: bool

record player_options =
  opt_guildId :: string
  opt_textChannel :: "string option"
  opt_voiceChannel :: "string option"
  opt_mute :: "bool option"
  opt_deaf :: "bool option"
  opt_defaultVolume :: "int option"
  opt_fadeInMs :: "int option"
  opt_loop :: "loop_mode option"
  opt_historyLimit :: "nat option"

section \<open>Helpers\<close>

text \<open>JavaScript truthiness of a nullable string.\<close>

definition truthy :: "string option \<Rightarrow> bool" where
  "truthy s = (case s of None \<Rightarrow> False | Some x \<Rightarrow> x \<noteq> [])"

definition emit :: "emitted \<Rightarrow> player \<Rightarrow> player" where
  "emit ev p = p\<lparr>eura := (eura p)\<lparr>emitted := emitted (eura p) @ [ev]\<rparr>\<rparr>"

definition send :: "gateway_payload \<Rightarrow> player \<Rightarrow> player" where
  "send d p = p\<lparr>eura := (eura p)\<lparr>sent := sent (eura p) @ [d]\<rparr>\<rparr>"

text \<open>A template literal prints \<^verbatim>\<open>null\<close> and \<^verbatim>\<open>undefined\<close> by name.\<close>

definition str_of :: "string option \<Rightarrow> string" where
  "str_of s = (case s of None \<Rightarrow> ''null'' | Some x \<Rightarrow> x)"

definition player_path :: "player \<Rightarrow> string" where
  "player_path p =
     ''/'' @ version (rest p) @ ''/sessions/'' @ str_of (rest_sessionId (rest p))
       @ ''/players/'' @ guildId p"

text \<open>
  \<^verbatim>\<open>Rest.makeRequest\<close> as far as the Player observes it: the request is issued and the
  call resolves, or rejects when the node is failing.
\<close>

definition makeRequest :: "request \<Rightarrow> player \<Rightarrow> bool \<times> player" where
  "makeRequest r p =
     (\<not> failing (rest p), p\<lparr>rest := (rest p)\<lparr>requests := requests (rest p) @ [r]\<rparr>\<rparr>)"

definition updatePlayer :: "update_data \<Rightarrow> player \<Rightarrow> bool \<times> player" where
  "updatePlayer d p =
     makeRequest \<lparr>req_method = PATCH, req_path = player_path p, req_body = Some d\<rparr> p"

definition destroyPlayer :: "player \<Rightarrow> bool \<times> player" where
  "destroyPlayer p =
     makeRequest \<lparr>req_method = DELETE, req_path = player_path p, req_body = None\<rparr> p"

section \<open>Player\<close>

subsection \<open>Construction\<close>

definition new_connection :: "int \<Rightarrow> string option \<Rightarrow> connection" where
  "new_connection now vc =
     \<lparr>voice = \<lparr>sessionId = None, endpoint = None, token = None\<rparr>, region = None,
      self_deaf = False, self_mute = False, conn_voiceChannel = vc,
      connectionState = Disconnected, lastUpdate = now, conn_reconnectAttempts = 0,
      conn_maxReconnectAttempts = 3, conn_updateQueue = [], conn_updateTimeout = False,
      conn_batchUpdates = True, retryTimeout = None\<rparr>"

definition new_filters :: filters where
  "new_filters = \<lparr>filters_volume = 1, equalizer = [], bassboost = None\<rparr>"

text \<open>\<^verbatim>\<open>options.historyLimit || 20\<close>: an absent or zero limit becomes 20.\<close>

definition new_player :: "int \<Rightarrow> eura \<Rightarrow> rest \<Rightarrow> player_options \<Rightarrow> player" where
  "new_player now e r opts =
     \<lparr>eura = e, rest = r, guildId = opt_guildId opts, textChannel = opt_textChannel opts,
      voiceChannel = opt_voiceChannel opts,
      connection = new_connection now (opt_voiceChannel opts), filters = new_filters,
      mute = (case opt_mute opts of None \<Rightarrow> False | Some b \<Rightarrow> b),
      deaf = (case opt_deaf opts of None \<Rightarrow> False | Some b \<Rightarrow> b),
      volume = (case opt_defaultVolume opts of None \<Rightarrow> 100 | Some v \<Rightarrow> v),
      fadeInMs = (case opt_fadeInMs opts of None \<Rightarrow> 0 | Some v \<Rightarrow> v),
      loop = (case opt_loop opts of None \<Rightarrow> LoopNone | Some l \<Rightarrow> l),
      queue = [], position = 0, current = None, previousTracks = [],
      historyLimit = (case opt_historyLimit opts of None \<Rightarrow> 20
                      | Some n \<Rightarrow> if n = 0 then 20 else n),
      playing = False, paused = False, connected = False, timestamp = now,
      isAutoplay = False, preloadNext_enabled = True, preloadNext_next = None,
      updateQueue = [], updateTimeout = False, batchUpdates = True\<rparr>"

subsection \<open>History\<close>

definition addToPreviousTrack :: "int \<Rightarrow> track option \<Rightarrow> player \<Rightarrow> player" where
  "addToPreviousTrack now trk p =
     (case trk of
        None \<Rightarrow> p
      | Some t \<Rightarrow>
          (case previousTracks p of
             e # es \<Rightarrow>
               if identifier_info (info e) = identifier_info (info t)
               then p\<lparr>previousTracks := e\<lparr>replayCount := replayCount e + 1, playedAt := now\<rparr> # es\<rparr>
               else let h = \<lparr>encoded = encoded t, info = info t, playedAt = now, replayCount = 1\<rparr>
                              # e # es
                    in p\<lparr>previousTracks :=
                           (if historyLimit p < length h then take (historyLimit p) h else h)\<rparr>
           | [] \<Rightarrow>
               let h = [\<lparr>encoded = encoded t, info = info t, playedAt = now, replayCount = 1\<rparr>]
               in p\<lparr>previousTracks :=
                      (if historyLimit p < length h then take (historyLimit p) h else h)\<rparr>))"

subsection \<open>Batched updates\<close>

text \<open>\<^verbatim>\<open>Object.assign(a, b)\<close> on update objects: every key present in \<open>b\<close> wins.\<close>

definition assign :: "update_data \<Rightarrow> update_data \<Rightarrow> update_data" where
  "assign a b =
     \<lparr>upd_track = (case upd_track b of None \<Rightarrow> upd_track a | Some x \<Rightarrow> Some x),
      upd_position = (case upd_position b of None \<Rightarrow> upd_position a | Some x \<Rightarrow> Some x),
      upd_paused = (case upd_paused b of None \<Rightarrow> upd_paused a | Some x \<Rightarrow> Some x),
      upd_volume = (case upd_volume b of None \<Rightarrow> upd_volume a | Some x \<Rightarrow> Some x),
      upd_voice = (case upd_voice b of None \<Rightarrow> upd_voice a | Some x \<Rightarrow> Some x),
      upd_filters = (case upd_filters b of None \<Rightarrow> upd_filters a | Some x \<Rightarrow> Some x),
      upd_timestamp = (case upd_timestamp b of None \<Rightarrow> upd_timestamp a | Some x \<Rightarrow> Some x)\<rparr>"

text \<open>The state left behind by a call whose promise nobody awaits.\<close>

definition settled :: "(error \<times> player) + player \<Rightarrow> player" where
  "settled r = (case r of Inl (e, q) \<Rightarrow> q | Inr q \<Rightarrow> q)"

definition performUpdate :: "update_data \<Rightarrow> player \<Rightarrow> (error \<times> player) + player" where
  "performUpdate u p =
     (case updatePlayer u p of
        (ok, q) \<Rightarrow> if ok then Inr q else Inl (Error ''Request failed'', emit PlayerErrorEv q))"

definition queueUpdate :: "int \<Rightarrow> update_data \<Rightarrow> player \<Rightarrow> player" where
  "queueUpdate now u p =
     (if \<not> batchUpdates p then settled (performUpdate u p)
      else p\<lparr>updateQueue := updateQueue p @ [u\<lparr>upd_timestamp := Some now\<rparr>],
             updateTimeout := True\<rparr>)"

definition processUpdateQueue :: "player \<Rightarrow> player" where
  "processUpdateQueue p =
     (if updateQueue p = [] then p
      else
        (case performUpdate (foldl assign no_update (updateQueue p)) (p\<lparr>updateQueue := []\<rparr>) of
           Inr q \<Rightarrow> q
         | Inl (e, q) \<Rightarrow> emit PlayerErrorEv q))"

text \<open>The environment step in which the 25 ms batch timer of the Player fires.\<close>

definition fireUpdateTimeout :: "player \<Rightarrow> player" where
  "fireUpdateTimeout p =
     (if updateTimeout p then processUpdateQueue (p\<lparr>updateTimeout := False\<rparr>) else p)"

subsection \<open>Commands\<close>

definition stop :: "int \<Rightarrow> player \<Rightarrow> player" where
  "stop now p =
     queueUpdate now (no_update\<lparr>upd_track := Some None\<rparr>)
       (p\<lparr>position := 0, playing := False, timestamp := now\<rparr>)"

definition pause :: "int \<Rightarrow> bool \<Rightarrow> player \<Rightarrow> player" where
  "pause now toggle p =
     (queueUpdate now (no_update\<lparr>upd_paused := Some toggle\<rparr>) p)
       \<lparr>playing := \<not> toggle, paused := toggle, timestamp := now\<rparr>"

definition seek :: "int \<Rightarrow> int \<Rightarrow> player \<Rightarrow> (error \<times> player) + player" where
  "seek now pos p =
     Inr ((queueUpdate now (no_update\<lparr>upd_position := Some pos\<rparr>) p)
            \<lparr>position := pos, timestamp := now\<rparr>)"

definition seekPercentage :: "int \<Rightarrow> int \<Rightarrow> player \<Rightarrow> (error \<times> player) + player" where
  "seekPercentage now percentage p =
     (case current p of
        None \<Rightarrow> Inr p
      | Some c \<Rightarrow>
          if percentage < 0 \<or> 100 < percentage then Inr p
          else seek now ((length_info (info c) * percentage) div 100) p)"

definition setVolume :: "int \<Rightarrow> int \<Rightarrow> player \<Rightarrow> (error \<times> player) + player" where
  "setVolume now v p =
     (if v < 0 \<or> 1000 < v then Inl (RangeError ''Volume must be between 0 and 1000'', p)
      else Inr ((queueUpdate now (no_update\<lparr>upd_volume := Some v\<rparr>) p)\<lparr>volume := v\<rparr>))"

subsection \<open>Starting playback\<close>

text \<open>
  The outcome of \<^verbatim>\<open>Track.resolve\<close>, which searches the node for an unresolved track:
  it rejects, resolves to \<^verbatim>\<open>undefined\<close> (no result), or resolves to the updated track.
  The search is external; \<open>play\<close> takes it as the function \<open>rsv\<close>.
\<close>

datatype resolution = ResolveThrows | ResolveUndefined | Resolved track

text \<open>
  Double arithmetic. \<open>to_double x\<close> is the double nearest to the rational \<open>x\<close> (53
  significant bits, ties to even), as the division and the multiplication of two doubles
  round their exact result; the exponent range is not limited, which is exact for
  magnitudes between \<^verbatim>\<open>2^-1022\<close> and \<^verbatim>\<open>2^1024\<close>. \<open>ilog2 x\<close> is the floor of the binary
  logarithm of a positive \<open>x\<close>, and \<open>js_round\<close> is \<^verbatim>\<open>Math.round\<close> (ties go up).
\<close>

definition pow2 :: "int \<Rightarrow> rat" where
  "pow2 e = (if 0 \<le> e then 2 ^ nat e else 1 / 2 ^ nat (- e))"

definition ilog2 :: "rat \<Rightarrow> int" where
  "ilog2 x =
     (let e0 = bitlen (fst (quotient_of x)) - bitlen (snd (quotient_of x))
      in if pow2 e0 \<le> x then e0 else e0 - 1)"

definition round_even :: "rat \<Rightarrow> int" where
  "round_even q =
     (let n = \<lfloor>q\<rfloor>; r = q - of_int n
      in if r < 1 / 2 then n else if 1 / 2 < r then n + 1 else if even n then n else n + 1)"

definition to_double :: "rat \<Rightarrow> rat" where
  "to_double x =
     (if x = 0 then 0
      else (let u = pow2 (ilog2 \<bar>x\<bar> - 52)
            in sgn x * of_int (round_even (\<bar>x\<bar> / u)) * u))"

definition js_round :: "rat \<Rightarrow> int" where
  "js_round x = \<lfloor>x + 1 / 2\<rfloor>"

text \<open>
  The volume ramp of \<^verbatim>\<open>applyFadeIn\<close>: one request with volume 0, then one per step with
  \<^verbatim>\<open>Math.min(target, Math.round((i + 1) * increment))\<close>, where \<^verbatim>\<open>increment\<close> is the double
  \<^verbatim>\<open>target / steps\<close> and the product is a double again. The first rejected request ends the
  ramp (the error is swallowed).
\<close>

definition applyFadeIn :: "int \<Rightarrow> player \<Rightarrow> player" where
  "applyFadeIn durationMs p =
     (let target = volume p;
          steps = max 1 (durationMs div 100);
          increment = to_double (of_int target / of_int steps);
          vols = 0 # map (\<lambda>i. min target (js_round (to_double (of_int (int i + 1) * increment))))
                       [0..<nat steps]
      in if failing (rest p) then snd (updatePlayer (no_update\<lparr>upd_volume := Some 0\<rparr>) p)
         else foldl (\<lambda>q v. snd (updatePlayer (no_update\<lparr>upd_volume := Some v\<rparr>) q)) p vols)"

text \<open>
  The preload of the next queue head: an unresolved candidate is resolved in the
  background (its completion is a later event, \<open>preloadNext_next\<close> is not written now).
\<close>

definition preload :: "player \<Rightarrow> player" where
  "preload p =
     (if preloadNext_enabled p \<and> queue p \<noteq> [] then
        (case hd (queue p) of
           Some c \<Rightarrow> if \<not> truthy (encoded c) then p else p\<lparr>preloadNext_next := Some c\<rparr>
         | None \<Rightarrow> p\<lparr>preloadNext_next := None\<rparr>)
      else p\<lparr>preloadNext_next := None\<rparr>)"

text \<open>
  \<^verbatim>\<open>play()\<close>. The one-second wait for a connection that is not yet \<^verbatim>\<open>'connected'\<close> only
  lets time pass. Reading \<^verbatim>\<open>.track\<close> of a \<^verbatim>\<open>null\<close> queue entry, or of the \<^verbatim>\<open>undefined\<close>
  a failed resolution returns, raises a TypeError; every error is reported by
  \<^verbatim>\<open>playerError\<close> and rethrown.
\<close>

definition play :: "int \<Rightarrow> (track \<Rightarrow> resolution) \<Rightarrow> player \<Rightarrow> (error \<times> player) + player" where
  "play now rsv p =
     (if \<not> connected p
      then Inl (Error ''Player connection is not initiated'', emit PlayerErrorEv p)
      else
        (case queue p of
           [] \<Rightarrow> Inr p
         | None # q \<Rightarrow>
             Inl (TypeError ''Cannot read properties of null'',
                  emit PlayerErrorEv (p\<lparr>current := None, queue := q\<rparr>))
         | Some t # q \<Rightarrow>
             (case (if truthy (encoded t) then Resolved t else rsv t) of
                ResolveThrows \<Rightarrow>
                  Inl (Error ''Track resolution failed'',
                       emit PlayerErrorEv (emit TrackErrorEv (p\<lparr>current := Some t, queue := q\<rparr>)))
              | ResolveUndefined \<Rightarrow>
                  Inl (TypeError ''Cannot destructure property of undefined'',
                       emit PlayerErrorEv
                         (p\<lparr>current := None, queue := q, playing := True, position := 0,
                            timestamp := now\<rparr>))
              | Resolved t' \<Rightarrow>
                  (let p2 = preload
                         (queueUpdate now (no_update\<lparr>upd_track := Some (encoded t')\<rparr>)
                            (p\<lparr>current := Some t', queue := q, playing := True, position := 0,
                               timestamp := now\<rparr>))
                   in Inr (if 0 < fadeInMs p2 then applyFadeIn (fadeInMs p2) p2 else p2)))))"

subsection \<open>Voice channel\<close>

definition connect ::
    "string \<Rightarrow> string option \<Rightarrow> string option \<Rightarrow> player \<Rightarrow> (error \<times> player) + player" where
  "connect g vc tc p =
     (if leastUsedNodes (eura p) = 0 then Inl (Error ''No nodes are available.'', p)
      else if connected p then Inr p
      else if g = [] \<or> \<not> truthy vc \<or> \<not> truthy tc
      then Inl (Error ''Missing required options: guildId, voiceChannel, textChannel'', p)
      else if connectionState (connection p) = Connecting then Inr p
      else Inr (send \<lparr>guild_id = g, channel_id = vc, gw_self_mute = mute p, gw_self_deaf = deaf p\<rparr>
                  (p\<lparr>connection := (connection p)\<lparr>connectionState := Connecting\<rparr>,
                     voiceChannel := vc, textChannel := tc\<rparr>)))"

text \<open>The \<^verbatim>\<open>playerDisconnect\<close> event is emitted by a 100 ms timer.\<close>

definition disconnect :: "int \<Rightarrow> player \<Rightarrow> player" where
  "disconnect now p =
     (if connectionState (connection p) = Disconnected \<or> \<not> truthy (voiceChannel p) then p
      else
        (let p1 = (pause now True p)\<lparr>playing := False\<rparr>;
             p2 = send \<lparr>guild_id = guildId p1, channel_id = None, gw_self_mute = False,
                        gw_self_deaf = False\<rparr> p1;
             p3 = p2\<lparr>connection := (connection p2)\<lparr>connectionState := Disconnected\<rparr>,
                     connected := False, voiceChannel := None\<rparr>
         in p3\<lparr>eura := (eura p3)\<lparr>deferred := deferred (eura p3) @ [PlayerDisconnectEv]\<rparr>\<rparr>))"

text \<open>
  \<^verbatim>\<open>destroy(disconnect = true)\<close>. The \<^verbatim>\<open>try\<close> block awaits the DELETE and then builds a
  log line from \<^verbatim>\<open>this.node.options.name\<close>. A \<^verbatim>\<open>Node\<close> has no property \<^verbatim>\<open>options\<close> (its
  constructor never assigns one), so that read raises a TypeError when the DELETE has
  resolved (the first branch below); the \<^verbatim>\<open>catch\<close> block reports it, like a rejected
  DELETE (the second branch), by \<^verbatim>\<open>playerError\<close>, and the cleanup goes on.
\<close>

definition destroy :: "int \<Rightarrow> bool \<Rightarrow> player \<Rightarrow> player" where
  "destroy now disc p =
     (let p1 = (if disc then disconnect now p else p);
          p2 = p1\<lparr>updateTimeout := False, updateQueue := []\<rparr>;
          p3 = (case destroyPlayer p2 of
                  (ok, q) \<Rightarrow>
                    if ok then emit PlayerErrorEv q
                    else emit PlayerErrorEv q);
          p4 = p3\<lparr>eura := (eura p3)\<lparr>players := players (eura p3) - {guildId p3}\<rparr>\<rparr>
      in emit PlayerDestroyEv p4)"

subsection \<open>Node events\<close>

definition trackStart :: "int \<Rightarrow> track option \<Rightarrow> player \<Rightarrow> player" where
  "trackStart now trk p =
     (let p1 = p\<lparr>playing := True, timestamp := now\<rparr>;
          p2 = (if current p1 = None \<and> trk \<noteq> None then p1\<lparr>current := trk\<rparr> else p1)
      in emit TrackStartEv p2)"

text \<open>
  The source-specific lookup of the next track to autoplay is external. Its outcome for
  the previous track: the lookup is empty or fails where the source calls \<^verbatim>\<open>stop()\<close>,
  it yields a track, or nothing happens (another source, an aborted or rejected lookup).
\<close>

datatype autoplay_lookup = LookupStop | LookupTrack track | LookupNothing

definition settle_play :: "int \<Rightarrow> (track \<Rightarrow> resolution) \<Rightarrow> player \<Rightarrow> player" where
  "settle_play now rsv p = settled (play now rsv p)"

definition autoplay ::
    "int \<Rightarrow> (track \<Rightarrow> resolution) \<Rightarrow> (history_entry \<Rightarrow> autoplay_lookup) \<Rightarrow> player \<Rightarrow> player" where
  "autoplay now rsv nextFor p =
     (if \<not> connected p then p
      else
        (let p1 = p\<lparr>isAutoplay := True\<rparr>
         in case previousTracks p1 of
              [] \<Rightarrow> p1
            | prev # _ \<Rightarrow>
                if sourceName (info prev) \<in> {''youtube'', ''soundcloud'', ''spotify''} then
                  (case nextFor prev of
                     LookupStop \<Rightarrow> stop now p1
                   | LookupTrack t \<Rightarrow> settle_play now rsv (p1\<lparr>queue := queue p1 @ [Some t]\<rparr>)
                   | LookupNothing \<Rightarrow> p1)
                else p1))"

text \<open>
  The pseudo crossfade at the top of \<^verbatim>\<open>trackEnd\<close>: \<open>steps\<close> requests that lower the
  node's volume by \<open>decrement\<close> each; rejected requests are ignored.
\<close>

fun fadeOutSteps :: "nat \<Rightarrow> int \<Rightarrow> int \<Rightarrow> player \<Rightarrow> player" where
  "fadeOutSteps 0 decrement currentVol p = p"
| "fadeOutSteps (Suc n) decrement currentVol p =
     (let v = max 0 (currentVol - decrement)
      in fadeOutSteps n decrement v (snd (updatePlayer (no_update\<lparr>upd_volume := Some v\<rparr>) p)))"

definition fadeOut :: "player \<Rightarrow> player" where
  "fadeOut p =
     (let duration = min (fadeInMs p) 3000;
          steps = max 1 (duration div 100);
          decrement = max 1 (volume p div steps)
      in fadeOutSteps (nat steps) decrement (volume p) p)"

definition trackEnd ::
    "int \<Rightarrow> (track \<Rightarrow> resolution) \<Rightarrow> (history_entry \<Rightarrow> autoplay_lookup) \<Rightarrow> track option \<Rightarrow>
     string \<Rightarrow> player \<Rightarrow> player" where
  "trackEnd now rsv nextFor trk reason p =
     (let p0 = p\<lparr>playing := False\<rparr>;
          p1 = (if queue p0 \<noteq> [] \<and> reason = ''FINISHED'' \<and> 0 < fadeInMs p0
                then fadeOut p0 else p0);
          p2 = addToPreviousTrack now trk p1;
          p3 = emit TrackEndEv p2
      in if reason = ''REPLACED'' then emit TrackEndEv p3
         else if \<not> connected p3 then emit QueueEndEv p3
         else if loop p3 = LoopTrack \<and> reason \<noteq> ''STOPPED''
         then settle_play now rsv (p3\<lparr>queue := trk # queue p3\<rparr>)
         else if loop p3 = LoopQueue \<and> reason \<noteq> ''STOPPED''
         then settle_play now rsv (p3\<lparr>queue := queue p3 @ [trk]\<rparr>)
         else if queue p3 \<noteq> [] then settle_play now rsv p3
         else if isAutoplay p3 then autoplay now rsv nextFor p3
         else emit QueueEndEv p3)"

text \<open>
  The node events embedded here. \<open>OtherEvent\<close> is an event of a type the handler does not
  know (it is only logged); \<^verbatim>\<open>TrackStuckEvent\<close> and \<^verbatim>\<open>WebSocketClosedEvent\<close>, which start the
  voice recovery and the restart, are not part of this development.
\<close>

datatype node_event =
    TrackStartEvent | TrackEndEvent string | TrackExceptionEvent | OtherEvent string

definition handleEvent ::
    "int \<Rightarrow> (track \<Rightarrow> resolution) \<Rightarrow> (history_entry \<Rightarrow> autoplay_lookup) \<Rightarrow> node_event \<Rightarrow>
     player \<Rightarrow> player" where
  "handleEvent now rsv nextFor ev p =
     (case ev of
        TrackStartEvent \<Rightarrow> trackStart now (current p) p
      | TrackEndEvent reason \<Rightarrow> trackEnd now rsv nextFor (current p) reason p
      | TrackExceptionEvent \<Rightarrow> emit TrackErrorEv p
      | OtherEvent _ \<Rightarrow> p)"

section \<open>Connection\<close>

text \<open>Character classes by ASCII code: \<^verbatim>\<open>0-9\<close> is 48..57, \<^verbatim>\<open>a-z\<close> is 97..122, \<^verbatim>\<open>A-Z\<close> is 65..90.\<close>

definition is_digit :: "char \<Rightarrow> bool" where
  "is_digit c = ((48::nat) \<le> of_char c \<and> of_char c \<le> (57::nat))"

definition is_lower :: "char \<Rightarrow> bool" where
  "is_lower c = ((97::nat) \<le> of_char c \<and> of_char c \<le> (122::nat))"

definition is_upper :: "char \<Rightarrow> bool" where
  "is_upper c = ((65::nat) \<le> of_char c \<and> of_char c \<le> (90::nat))"

text \<open>\<^verbatim>\<open>toLowerCase\<close> on the ASCII letters.\<close>

definition toLowerCase :: "string \<Rightarrow> string" where
  "toLowerCase s = map (\<lambda>c. if is_upper c then char_of (of_char c + (32::nat)) else c) s"

definition starts_with :: "string \<Rightarrow> string \<Rightarrow> bool" where
  "starts_with pre s = (take (length pre) s = pre)"

text \<open>\<^verbatim>\<open>endpoint.split(".").shift().replace(/[0-9]/g, "")\<close>\<close>

definition first_segment_letters :: "string \<Rightarrow> string" where
  "first_segment_letters e = filter (\<lambda>c. \<not> is_digit c) (takeWhile (\<lambda>c. c \<noteq> CHR ''.'') e)"

text \<open>
  Group 1 of the leftmost match of \<^verbatim>\<open>/([a-z]+)[0-9]*\.discord\.com/\<close>: at a start position
  the match takes the whole run of lower-case letters, then the whole run of digits, and
  needs the literal after them (a shorter run is followed by a letter or a digit, which
  the literal does not start with).
\<close>

definition discord_match_here :: "string \<Rightarrow> string option" where
  "discord_match_here s =
     (let letters = takeWhile is_lower s;
          after = dropWhile is_digit (dropWhile is_lower s)
      in if letters \<noteq> [] \<and> starts_with ''.discord.com'' after then Some letters else None)"

fun discord_match :: "string \<Rightarrow> string option" where
  "discord_match [] = None"
| "discord_match (c # s) =
     (case discord_match_here (c # s) of Some r \<Rightarrow> Some r | None \<Rightarrow> discord_match s)"

definition extractRegion :: "string option \<Rightarrow> string option" where
  "extractRegion ep =
     (case ep of
        None \<Rightarrow> None
      | Some e \<Rightarrow>
          if e = [] then None
          else if first_segment_letters e \<noteq> [] then Some (toLowerCase (first_segment_letters e))
          else
            (case discord_match e of
               Some r \<Rightarrow> Some (toLowerCase r)
             | None \<Rightarrow> Some ''unknown''))"

text \<open>
  \<^verbatim>\<open>updatePlayerVoiceData(updateData)\<close>: the PATCH carries the \<^verbatim>\<open>voice\<close> block and the
  volume of \<open>updateData\<close>, or the current ones when it is \<^verbatim>\<open>null\<close>.
\<close>

definition updatePlayerVoiceData ::
    "int \<Rightarrow> voice_update option \<Rightarrow> player \<Rightarrow> (error \<times> player) + player" where
  "updatePlayerVoiceData now updateData p =
     (let v = (case updateData of None \<Rightarrow> voice (connection p) | Some u \<Rightarrow> vu_voice u);
          vol = (case updateData of None \<Rightarrow> volume p | Some u \<Rightarrow> vu_volume u)
      in case updatePlayer (no_update\<lparr>upd_voice := Some v, upd_volume := Some vol\<rparr>) p of
           (ok, q) \<Rightarrow>
             if ok
             then Inr (q\<lparr>connection := (connection q)\<lparr>lastUpdate := now,
                                                       conn_reconnectAttempts := 0\<rparr>\<rparr>)
             else Inl (Error ''Request failed'', emit ConnectionErrorEv q))"

text \<open>\<^verbatim>\<open>Connection.queueUpdate()\<close> stores a copy of the voice block as it is now.\<close>

definition conn_queueUpdate :: "int \<Rightarrow> player \<Rightarrow> player" where
  "conn_queueUpdate now p =
     (if \<not> conn_batchUpdates (connection p) then settled (updatePlayerVoiceData now None p)
      else p\<lparr>connection := (connection p)
               \<lparr>conn_updateQueue := conn_updateQueue (connection p)
                   @ [\<lparr>vu_voice = voice (connection p), vu_volume = volume p, vu_timestamp = now\<rparr>],
                conn_updateTimeout := True\<rparr>\<rparr>)"

definition conn_processUpdateQueue :: "int \<Rightarrow> player \<Rightarrow> player" where
  "conn_processUpdateQueue now p =
     (if conn_updateQueue (connection p) = [] then p
      else
        (case updatePlayerVoiceData now (Some (last (conn_updateQueue (connection p))))
                (p\<lparr>connection := (connection p)\<lparr>conn_updateQueue := []\<rparr>\<rparr>) of
           Inr q \<Rightarrow> q
         | Inl (e, q) \<Rightarrow>
             if conn_reconnectAttempts (connection q) < conn_maxReconnectAttempts (connection q)
             then q\<lparr>connection := (connection q)
                      \<lparr>conn_reconnectAttempts := conn_reconnectAttempts (connection q) + 1,
                       retryTimeout :=
                         Some (2 ^ (conn_reconnectAttempts (connection q) + 1) * 1000)\<rparr>\<rparr>
             else emit ConnectionErrorEv q))"

text \<open>The environment steps in which the flush timer and the retry timer fire.\<close>

definition fireConnUpdateTimeout :: "int \<Rightarrow> player \<Rightarrow> player" where
  "fireConnUpdateTimeout now p =
     (if conn_updateTimeout (connection p)
      then conn_processUpdateQueue now
             (p\<lparr>connection := (connection p)\<lparr>conn_updateTimeout := False\<rparr>\<rparr>)
      else p)"

definition fireRetryTimeout :: "int \<Rightarrow> player \<Rightarrow> player" where
  "fireRetryTimeout now p =
     (if retryTimeout (connection p) \<noteq> None
      then conn_queueUpdate now (p\<lparr>connection := (connection p)\<lparr>retryTimeout := None\<rparr>\<rparr>)
      else p)"

definition setServerUpdate ::
    "int \<Rightarrow> string option \<Rightarrow> string option \<Rightarrow> player \<Rightarrow> (error \<times> player) + player" where
  "setServerUpdate now ep tok p =
     (if \<not> truthy ep
      then Inl (Error ''Missing endpoint property in VOICE_SERVER_UPDATE packet/payload'', p)
      else
        (let p1 = p\<lparr>connection := (connection p)
                      \<lparr>voice := (voice (connection p))\<lparr>endpoint := ep, token := tok\<rparr>,
                       region := extractRegion ep\<rparr>\<rparr>;
             p2 = (if paused p1 \<and> connectionState (connection p1) = Connecting
                   then pause now False p1 else p1);
             p3 = p2\<lparr>connection := (connection p2)
                      \<lparr>connectionState := Connected, lastUpdate := now,
                       conn_reconnectAttempts := 0\<rparr>,
                     connected := True\<rparr>
         in Inr (conn_queueUpdate now p3)))"

text \<open>
  \<^verbatim>\<open>setStateUpdate\<close>: a \<^verbatim>\<open>null\<close> channel destroys the Player; otherwise a changed channel
  is a move, and the session id is recorded (\<^verbatim>\<open>session_id || null\<close>).
\<close>

definition setStateUpdate ::
    "int \<Rightarrow> string option \<Rightarrow> string option \<Rightarrow> bool \<Rightarrow> bool \<Rightarrow> player \<Rightarrow> player" where
  "setStateUpdate now session_id chan sdeaf smute p =
     (if chan = None then
        destroy now True
          (emit PlayerDisconnectEv
             (p\<lparr>connection := (connection p)\<lparr>connectionState := Disconnected\<rparr>,
                connected := False\<rparr>))
      else
        (let p1 = (if truthy (voiceChannel p) \<and> truthy chan \<and> voiceChannel p \<noteq> chan
                   then (emit (PlayerMoveEv (voiceChannel p) chan) p)
                          \<lparr>voiceChannel := chan,
                           connection := (connection p)\<lparr>conn_voiceChannel := chan\<rparr>\<rparr>
                   else p)
         in p1\<lparr>connection := (connection p1)
                  \<lparr>self_deaf := sdeaf, self_mute := smute,
                   voice := (voice (connection p1))
                      \<lparr>sessionId := (if truthy session_id then session_id else None)\<rparr>,
                   connectionState := Connected, lastUpdate := now\<rparr>,
                connected := True\<rparr>))"

section \<open>Orchestrator\<close>

datatype packet =
    VOICE_SERVER_UPDATE string "string option" "string option"
  | VOICE_STATE_UPDATE string string "string option" "string option" bool bool
  | OTHER_PACKET string

text \<open>
  \<^verbatim>\<open>createPlayer\<close>: the Player is registered and asked to connect; a rejection of
  \<^verbatim>\<open>connect\<close> is not awaited.
\<close>

definition createPlayer :: "int \<Rightarrow> eura \<Rightarrow> rest \<Rightarrow> player_options \<Rightarrow> player" where
  "createPlayer now e r opts =
     (let p = new_player now e r opts;
          p1 = p\<lparr>eura := (eura p)\<lparr>players := insert (guildId p) (players (eura p))\<rparr>\<rparr>
      in emit PlayerCreateEv
           (settled (connect (opt_guildId opts) (opt_voiceChannel opts) (opt_textChannel opts) p1)))"

text \<open>
  \<^verbatim>\<open>updateVoiceState\<close> as it reaches this Player: the packet is routed by guild id through
  the player map, and a state update of another user is dropped.
\<close>

definition updateVoiceState :: "int \<Rightarrow> packet \<Rightarrow> player \<Rightarrow> (error \<times> player) + player" where
  "updateVoiceState now pkt p =
     (case pkt of
        OTHER_PACKET _ \<Rightarrow> Inr p
      | VOICE_SERVER_UPDATE g ep tok \<Rightarrow>
          if g \<noteq> guildId p \<or> guildId p \<notin> players (eura p) then Inr p
          else setServerUpdate now ep tok p
      | VOICE_STATE_UPDATE g user chan sess sdeaf smute \<Rightarrow>
          if g \<noteq> guildId p \<or> guildId p \<notin> players (eura p) then Inr p
          else if user \<noteq> clientId (eura p) then Inr p
          else Inr (setStateUpdate now sess chan sdeaf smute p))"

text \<open>\<^verbatim>\<open>Euralink.destroyPlayer(guildId)\<close> for the guild of this Player.\<close>

definition eura_destroyPlayer :: "int \<Rightarrow> player \<Rightarrow> player" where
  "eura_destroyPlayer now p =
     (if guildId p \<notin> players (eura p) then p
      else
        (let q = destroy now True p
         in emit PlayerDestroyEv
              (q\<lparr>eura := (eura q)\<lparr>players := players (eura q) - {guildId q}\<rparr>\<rparr>)))"

section \<open>Filters\<close>

text \<open>
  \<^verbatim>\<open>updateFilters\<close> sends the whole \<^verbatim>\<open>filters\<close> payload at once, without batching.
\<close>

definition updateFilters :: "player \<Rightarrow> (error \<times> player) + player" where
  "updateFilters p =
     (case updatePlayer
             (no_update\<lparr>upd_filters :=
                Some \<lparr>fp_volume = filters_volume (filters p),
                      fp_equalizer = equalizer (filters p)\<rparr>\<rparr>) p of
        (ok, q) \<Rightarrow>
          if ok then Inr (emit FiltersUpdatedEv q)
          else Inl (Error ''Request failed'', emit FiltersErrorEv q))"

definition setEqualizer :: "band_gain list \<Rightarrow> player \<Rightarrow> player" where
  "setEqualizer b p = settled (updateFilters (p\<lparr>filters := (filters p)\<lparr>equalizer := b\<rparr>\<rparr>))"

text \<open>\<^verbatim>\<open>v || d\<close> on an optional number: \<^verbatim>\<open>undefined\<close> and \<^verbatim>\<open>0\<close> are falsy.\<close>

definition js_or :: "rat option \<Rightarrow> rat \<Rightarrow> rat" where
  "js_or v d = (case v of None \<Rightarrow> d | Some x \<Rightarrow> if x = 0 then d else x)"

text \<open>
  \<^verbatim>\<open>setBassboost(enabled, {value})\<close>. The source computes the gain as
  \<^verbatim>\<open>(options.value || 5 - 1) * (1.25 / 9) - 0.25\<close>, where \<^verbatim>\<open>-\<close> binds tighter than \<^verbatim>\<open>||\<close>,
  and fills \<^verbatim>\<open>Array(13)\<close>.
\<close>

definition setBassboost :: "bool \<Rightarrow> rat option \<Rightarrow> player \<Rightarrow> (error \<times> player) + player" where
  "setBassboost enabled val p =
     (if enabled then
        (if (case val of None \<Rightarrow> False | Some v \<Rightarrow> v < 0 \<or> 5 < v)
         then Inl (Error ''Bassboost value must be between 0 and 5'', p)
         else
           (let num = js_or val (5 - 1) * (125 / 100 / 9) - 25 / 100
            in Inr (setEqualizer (map (\<lambda>i. \<lparr>band = i, gain = num\<rparr>) [0..<13])
                      (p\<lparr>filters := (filters p)\<lparr>bassboost := Some (js_or val 5)\<rparr>\<rparr>))))
      else Inr (setEqualizer [] (p\<lparr>filters := (filters p)\<lparr>bassboost := None\<rparr>\<rparr>)))"

section \<open>Track search\<close>

text \<open>
  A response of \<^verbatim>\<open>GET /loadtracks\<close>. The v4 shapes carry their payload in \<^verbatim>\<open>data\<close>;
  \<open>V3 lt ts\<close> is the legacy shape \<^verbatim>\<open>{loadType: lt, tracks: ts}\<close> (for instance
  \<^verbatim>\<open>NO_MATCHES\<close>). A playlist's info is represented by its name.
\<close>

datatype response =
    V4Track track
  | V4Playlist "string option" "track list"
  | V4Search "track list"
  | V4Empty
  | V4Error "string option"
  | V3 string "track list"

text \<open>What a call to \<^verbatim>\<open>makeRequest\<close> gives: it rejects, or resolves to \<^verbatim>\<open>null\<close> or a body.\<close>

datatype reply = Rejects | Null | Reply response

record search_node =
  node_version :: string
  respond :: "string \<Rightarrow> reply"

record resolve_result =
  res_loadType :: string
  res_tracks :: "track list"
  res_playlistInfo :: "string option"

definition loadType :: "response \<Rightarrow> string" where
  "loadType r =
     (case r of
        V4Track _ \<Rightarrow> ''track''
      | V4Playlist _ _ \<Rightarrow> ''playlist''
      | V4Search _ \<Rightarrow> ''search''
      | V4Empty \<Rightarrow> ''empty''
      | V4Error _ \<Rightarrow> ''error''
      | V3 lt _ \<Rightarrow> lt)"

definition hex_digit :: "nat \<Rightarrow> char" where
  "hex_digit n = ''0123456789ABCDEF'' ! n"

definition unreserved :: "char \<Rightarrow> bool" where
  "unreserved c =
     (is_upper c \<or> is_lower c \<or> is_digit c \<or> c \<in> set ''-_.!~*()'' \<or> c = CHR 0x27)"

text \<open>\<^verbatim>\<open>encodeURIComponent\<close> on a string given by its UTF-8 bytes.\<close>

definition encodeURIComponent :: "string \<Rightarrow> string" where
  "encodeURIComponent s =
     concat (map (\<lambda>c. if unreserved c then [c]
                       else [CHR ''%'', hex_digit (of_char c div 16), hex_digit (of_char c mod 16)])
               s)"

text \<open>\<^verbatim>\<open>/^https?:\/\//.test(query)\<close>\<close>

definition is_url :: "string \<Rightarrow> bool" where
  "is_url q = (starts_with ''http://'' q \<or> starts_with ''https://'' q)"

definition loadtracks :: "search_node \<Rightarrow> string \<Rightarrow> string" where
  "loadtracks n ident = ''/'' @ node_version n @ ''/loadtracks?identifier='' @ ident"

definition no_matches :: "response \<Rightarrow> bool" where
  "no_matches r = (loadType r = ''empty'' \<or> loadType r = ''NO_MATCHES'')"

text \<open>
  The mapping of the final response to the result of \<^verbatim>\<open>resolve\<close>. Under v4 a
  \<^verbatim>\<open>track\<close> response without \<^verbatim>\<open>data\<close> raises a TypeError (the log line reads
  \<^verbatim>\<open>this.tracks[0].info\<close>).
\<close>

definition finish :: "search_node \<Rightarrow> response \<Rightarrow> error + resolve_result" where
  "finish n r =
     (if node_version n = ''v4'' then
        (if loadType r = ''track'' then
           (case r of
              V4Track t \<Rightarrow> Inr \<lparr>res_loadType = loadType r, res_tracks = [t], res_playlistInfo = None\<rparr>
            | _ \<Rightarrow> Inl (TypeError ''Cannot read properties of undefined''))
         else if loadType r = ''playlist'' then
           (case r of
              V4Playlist i ts \<Rightarrow>
                Inr \<lparr>res_loadType = loadType r, res_tracks = ts, res_playlistInfo = i\<rparr>
            | _ \<Rightarrow> Inr \<lparr>res_loadType = loadType r, res_tracks = [], res_playlistInfo = None\<rparr>)
         else
           Inr \<lparr>res_loadType = loadType r,
                res_tracks = (case r of V4Search ts \<Rightarrow> ts | _ \<Rightarrow> []),
                res_playlistInfo = None\<rparr>)
      else
        Inr \<lparr>res_loadType = loadType r,
             res_tracks = (case r of V3 _ ts \<Rightarrow> ts | _ \<Rightarrow> []),
             res_playlistInfo = None\<rparr>)"

text \<open>
  The second and third lookups of \<^verbatim>\<open>resolve\<close> ("for resolving identifiers"): \<open>issued\<close>
  is the list of request paths issued so far, oldest first.
\<close>

definition identifier_fallback ::
    "search_node \<Rightarrow> string \<Rightarrow> response \<Rightarrow> string list \<Rightarrow> (error + resolve_result) \<times> string list"
  where
  "identifier_fallback n query r issued =
     (if \<not> no_matches r then (finish n r, issued)
      else
        (let p2 = loadtracks n (''https://open.spotify.com/track/'' @ query)
         in case respond n p2 of
              Rejects \<Rightarrow> (Inl (Error ''Request failed''), issued @ [p2])
            | Null \<Rightarrow> (Inl (TypeError ''Cannot read properties of null''), issued @ [p2])
            | Reply r2 \<Rightarrow>
                if \<not> no_matches r2 then (finish n r2, issued @ [p2])
                else
                  (let p3 = loadtracks n (''https://www.youtube.com/watch?v='' @ query)
                   in case respond n p3 of
                        Rejects \<Rightarrow> (Inl (Error ''Request failed''), issued @ [p2, p3])
                      | Null \<Rightarrow>
                          (Inl (TypeError ''Cannot read properties of null''), issued @ [p2, p3])
                      | Reply r3 \<Rightarrow> (finish n r3, issued @ [p2, p3]))))"

text \<open>\<^verbatim>\<open>response?.data?.message || 'Failed to load tracks'\<close>\<close>

definition failure_message :: "reply \<Rightarrow> string" where
  "failure_message rep =
     (case rep of
        Reply (V4Error (Some m)) \<Rightarrow> if m = [] then ''Failed to load tracks'' else m
      | _ \<Rightarrow> ''Failed to load tracks'')"

text \<open>
  The handling of a first response that is \<^verbatim>\<open>null\<close> or has load type \<^verbatim>\<open>error\<close>: a URL
  query is searched once more as \<^verbatim>\<open>source:query\<close>, anything else fails.
\<close>

definition retry_url ::
    "search_node \<Rightarrow> string \<Rightarrow> string \<Rightarrow> reply \<Rightarrow> string list \<Rightarrow>
     (error + resolve_result) \<times> string list" where
  "retry_url n querySource query rep issued =
     (if is_url query then
        (let pf = loadtracks n (encodeURIComponent (querySource @ '':'' @ query))
         in case respond n pf of
              Rejects \<Rightarrow> (Inl (Error ''Request failed''), issued @ [pf])
            | Null \<Rightarrow> (Inl (Error (failure_message Null)), issued @ [pf])
            | Reply r \<Rightarrow>
                if loadType r = ''error''
                then (Inl (Error (failure_message (Reply r))), issued @ [pf])
                else identifier_fallback n query r (issued @ [pf]))
      else (Inl (Error (failure_message rep)), issued))"

text \<open>\<^verbatim>\<open>source || this.defaultSearchPlatform\<close>\<close>

definition query_source :: "string \<Rightarrow> string option \<Rightarrow> string" where
  "query_source defaultSearchPlatform source =
     (case source of
        None \<Rightarrow> defaultSearchPlatform
      | Some src \<Rightarrow> if src = [] then defaultSearchPlatform else src)"

text \<open>
  \<^verbatim>\<open>resolve({query, source, requester, node})\<close>, with the node already selected
  (\<open>None\<close> when no node is available). The result comes with the request paths issued.
\<close>

definition resolve ::
    "bool \<Rightarrow> string \<Rightarrow> search_node option \<Rightarrow> string \<Rightarrow> string option \<Rightarrow>
     (error + resolve_result) \<times> string list" where
  "resolve initiated defaultSearchPlatform requestNode query source =
     (if \<not> initiated
      then (Inl (Error ''You have to initialize Euralink in your ready event''), [])
      else
        (case requestNode of
           None \<Rightarrow> (Inl (Error ''No nodes are available.''), [])
         | Some n \<Rightarrow>
             (let querySource = query_source defaultSearchPlatform source;
                  p1 = loadtracks n
                         (encodeURIComponent
                            (if is_url query then query else querySource @ '':'' @ query))
              in case respond n p1 of
                   Rejects \<Rightarrow> (Inl (Error ''Request failed''), [p1])
                 | Null \<Rightarrow> retry_url n querySource query Null [p1]
                 | Reply r \<Rightarrow>
                     if loadType r = ''error'' then retry_url n querySource query (Reply r) [p1]
                     else identifier_fallback n query r [p1])))"

section \<open>Properties and sample states\<close>

text \<open>
  The history invariant: the history is no longer than the limit, and neighbouring
  entries have different identifiers.
\<close>

definition history_ok :: "player \<Rightarrow> bool" where
  "history_ok p =
     (length (previousTracks p) \<le> historyLimit p \<and>
      distinct_adj (map (\<lambda>e. identifier_info (info e)) (previousTracks p)))"

text \<open>The part of the Player the history functions read and write.\<close>

definition hist :: "player \<Rightarrow> history_entry list \<times> nat" where
  "hist p = (previousTracks p, historyLimit p)"

text \<open>The part of the Player the \<^verbatim>\<open>TrackEnd\<close> decision reads.\<close>

definition control ::
    "player \<Rightarrow> bool \<times> loop_mode \<times> track option list \<times> bool \<times> track option \<times> update_data list"
  where
  "control p = (connected p, loop p, queue p, isAutoplay p, current p, updateQueue p)"

text \<open>A sample orchestrator, node and Player for guild 1, used to instantiate the theorems.\<close>

definition demo_eura :: eura where
  "demo_eura = \<lparr>players = {}, clientId = ''bot'', leastUsedNodes = 1, sent = [], emitted = [],
     deferred = []\<rparr>"

definition demo_rest :: rest where
  "demo_rest = \<lparr>version = ''v4'', rest_sessionId = Some ''sid'', requests = [], failing = False\<rparr>"

definition demo_options :: player_options where
  "demo_options = \<lparr>opt_guildId = ''1'', opt_textChannel = Some ''TC'',
     opt_voiceChannel = Some ''VC'', opt_mute = None, opt_deaf = None, opt_defaultVolume = None,
     opt_fadeInMs = None, opt_loop = None, opt_historyLimit = None\<rparr>"

definition demo_player :: player where
  "demo_player = createPlayer 0 demo_eura demo_rest demo_options"

definition trackA :: track where
  "trackA = \<lparr>encoded = Some ''QAAAA'',
     info = \<lparr>identifier_info = ''idA'', title = ''A'', author = ''Artist'', length_info = 1000,
             sourceName = ''youtube''\<rparr>\<rparr>"

definition trackB :: track where
  "trackB = \<lparr>encoded = Some ''QBBBB'',
     info = \<lparr>identifier_info = ''idB'', title = ''B'', author = ''Artist'', length_info = 2000,
             sourceName = ''youtube''\<rparr>\<rparr>"

text \<open>
  The sample Player after the gateway's \<^verbatim>\<open>VOICE_SERVER_UPDATE\<close>, after the
  \<^verbatim>\<open>VOICE_STATE_UPDATE\<close> that follows it, and once the voice update is flushed and the
  queue [A, B] is started.
\<close>

definition demo_server_updated :: player where
  "demo_server_updated =
     settled (updateVoiceState 1
        (VOICE_SERVER_UPDATE ''1'' (Some ''us-east42.example:443'') (Some ''T'')) demo_player)"

definition demo_connected :: player where
  "demo_connected =
     settled (updateVoiceState 2
        (VOICE_STATE_UPDATE ''1'' ''bot'' (Some ''VC'') (Some ''S'') False False)
        demo_server_updated)"

definition demo_playing :: player where
  "demo_playing =
     settle_play 4 Resolved
       ((fireConnUpdateTimeout 3 demo_connected)\<lparr>queue := [Some trackA, Some trackB]\<rparr>)"

text \<open>A sample node: the query \<^verbatim>\<open>abc123\<close> is found only by the third lookup.\<close>

definition demo_node :: search_node where
  "demo_node = \<lparr>node_version = ''v4'',
     respond = (\<lambda>path.
        if path = ''/v4/loadtracks?identifier=ytsearch%3Aabc123'' then Reply V4Empty
        else if path = ''/v4/loadtracks?identifier=https://open.spotify.com/track/abc123''
        then Reply V4Empty
        else if path = ''/v4/loadtracks?identifier=https://www.youtube.com/watch?v=abc123''
        then Reply (V4Track trackA)
        else Null)\<rparr>"

section \<open>Unfolding the sample states\<close>

lemmas demo_defs = demo_player_def createPlayer_def new_player_def demo_options_def connect_def
  demo_eura_def demo_rest_def settled_def send_def emit_def Let_def truthy_def new_connection_def
  new_filters_def trackA_def trackB_def

lemmas voice_defs = updateVoiceState_def setServerUpdate_def setStateUpdate_def
  conn_queueUpdate_def extractRegion_def first_segment_letters_def toLowerCase_def is_digit_def
  is_upper_def fireConnUpdateTimeout_def conn_processUpdateQueue_def updatePlayerVoiceData_def

lemmas rest_defs = updatePlayer_def destroyPlayer_def makeRequest_def player_path_def str_of_def
  no_update_def

lemmas play_defs = settle_play_def play_def queueUpdate_def preload_def performUpdate_def

lemmas demo_state_defs = demo_playing_def demo_connected_def demo_server_updated_def demo_defs
  voice_defs rest_defs play_defs

section \<open>History\<close>

lemma hist_emit: "hist (emit ev p) = hist p"
  by (simp add: hist_def emit_def)

lemma hist_updatePlayer: "hist (snd (updatePlayer d p)) = hist p"
  by (simp add: hist_def updatePlayer_def makeRequest_def)

lemma hist_performUpdate: "hist (settled (performUpdate u p)) = hist p"
  by (simp add: hist_def performUpdate_def settled_def updatePlayer_def makeRequest_def emit_def)

lemma hist_queueUpdate: "hist (queueUpdate now u p) = hist p"
  using hist_performUpdate [of u p]
  by (simp add: queueUpdate_def hist_def)

lemma hist_foldl_updatePlayer:
  "hist (foldl (\<lambda>q v. snd (updatePlayer (f v) q)) p vs) = hist p"
  by (induction vs arbitrary: p) (simp_all add: hist_updatePlayer)

lemma hist_applyFadeIn: "hist (applyFadeIn d p) = hist p"
  by (simp add: applyFadeIn_def Let_def hist_foldl_updatePlayer hist_updatePlayer)

lemma hist_fadeOutSteps: "hist (fadeOutSteps n d c p) = hist p"
  by (induction n arbitrary: c p) (simp_all add: Let_def hist_updatePlayer)

lemma hist_fadeOut: "hist (fadeOut p) = hist p"
  by (simp add: fadeOut_def Let_def hist_fadeOutSteps)

lemma hist_preload: "hist (preload p) = hist p"
  by (simp add: preload_def hist_def split: option.splits)

lemma hist_stop: "hist (stop now p) = hist p"
  by (simp add: stop_def hist_queueUpdate) (simp add: hist_def)

lemma hist_started:
  "hist (preload (queueUpdate now u
       (p\<lparr>current := c, queue := q, playing := True, position := 0, timestamp := now\<rparr>)))
   = hist p"
  by (simp add: hist_preload hist_queueUpdate) (simp add: hist_def)

lemma hist_play: "hist (settle_play now rsv p) = hist p"
  unfolding settle_play_def play_def settled_def
  by (simp add: Let_def hist_emit hist_applyFadeIn hist_started
           split: list.splits option.splits resolution.splits)
     (simp add: hist_def)

lemma hist_autoplay: "hist (autoplay now rsv nextFor p) = hist p"
  unfolding autoplay_def
  by (simp add: Let_def hist_stop hist_play split: list.splits autoplay_lookup.splits)
     (simp add: hist_def)

lemma hist_addToPreviousTrack_cong:
  "hist p = hist q \<Longrightarrow> hist (addToPreviousTrack now trk p) = hist (addToPreviousTrack now trk q)"
  by (simp add: hist_def addToPreviousTrack_def Let_def split: option.splits list.splits)

lemma hist_queue_update: "hist (p\<lparr>queue := q\<rparr>) = hist p"
  by (simp add: hist_def)

text \<open>
  \<^verbatim>\<open>trackEnd\<close> written over the state \<open>p3\<close> reached once the ended track is recorded
  and \<^verbatim>\<open>trackEnd\<close> is emitted.
\<close>

lemma trackEnd_unfold:
  assumes "p1 = (if queue (p\<lparr>playing := False\<rparr>) \<noteq> [] \<and> reason = ''FINISHED''
                    \<and> 0 < fadeInMs (p\<lparr>playing := False\<rparr>)
                 then fadeOut (p\<lparr>playing := False\<rparr>) else p\<lparr>playing := False\<rparr>)"
    and "p3 = emit TrackEndEv (addToPreviousTrack now trk p1)"
  shows "trackEnd now rsv nextFor trk reason p =
     (if reason = ''REPLACED'' then emit TrackEndEv p3
      else if \<not> connected p3 then emit QueueEndEv p3
      else if loop p3 = LoopTrack \<and> reason \<noteq> ''STOPPED''
      then settle_play now rsv (p3\<lparr>queue := trk # queue p3\<rparr>)
      else if loop p3 = LoopQueue \<and> reason \<noteq> ''STOPPED''
      then settle_play now rsv (p3\<lparr>queue := queue p3 @ [trk]\<rparr>)
      else if queue p3 \<noteq> [] then settle_play now rsv p3
      else if isAutoplay p3 then autoplay now rsv nextFor p3
      else emit QueueEndEv p3)"
  by (simp only: trackEnd_def Let_def assms)

lemma hist_trackEnd:
  "hist (trackEnd now rsv nextFor trk reason p) = hist (addToPreviousTrack now trk p)"
proof -
  define p1 where "p1 = (if queue (p\<lparr>playing := False\<rparr>) \<noteq> [] \<and> reason = ''FINISHED''
                  \<and> 0 < fadeInMs (p\<lparr>playing := False\<rparr>)
             then fadeOut (p\<lparr>playing := False\<rparr>) else p\<lparr>playing := False\<rparr>)"
  define p3 where "p3 = emit TrackEndEv (addToPreviousTrack now trk p1)"
  note eq = trackEnd_unfold [OF p1_def p3_def]
  have "hist (p\<lparr>playing := False\<rparr>) = hist p" by (simp add: hist_def)
  then have "hist p1 = hist p" by (simp add: p1_def hist_fadeOut)
  then have "hist (addToPreviousTrack now trk p1) = hist (addToPreviousTrack now trk p)"
    by (rule hist_addToPreviousTrack_cong)
  then have h3: "hist p3 = hist (addToPreviousTrack now trk p)"
    unfolding p3_def by (simp only: hist_emit)
  have "hist (trackEnd now rsv nextFor trk reason p) = hist p3"
    unfolding eq
    by (simp only: hist_emit hist_play hist_autoplay hist_queue_update if_distrib [of hist]
          if_cancel)
  with h3 show ?thesis by simp
qed

lemma history_ok_hist: "hist p = hist q \<Longrightarrow> history_ok p = history_ok q"
  by (simp add: hist_def history_ok_def)

lemma distinct_adj_take: "distinct_adj xs \<Longrightarrow> distinct_adj (take n xs)"
  using distinct_adj_appendD1 [of "take n xs" "drop n xs"] by simp

lemma history_ok_addToPreviousTrack:
  assumes "history_ok p"
  shows "history_ok (addToPreviousTrack now trk p)"
proof (cases trk)
  case None
  with assms show ?thesis by (simp add: addToPreviousTrack_def)
next
  case (Some t)
  define x where "x = \<lparr>encoded = encoded t, info = info t, playedAt = now, replayCount = 1\<rparr>"
  have idx: "identifier_info (info x) = identifier_info (info t)" by (simp add: x_def)
  define f where "f = (\<lambda>e::history_entry. identifier_info (info e))"
  from assms have len: "length (previousTracks p) \<le> historyLimit p"
    and adj: "distinct_adj (map f (previousTracks p))"
    by (simp_all add: history_ok_def f_def)
  show ?thesis
  proof (cases "previousTracks p")
    case Nil
    then have "previousTracks (addToPreviousTrack now trk p) = take (historyLimit p) [x]
       \<and> historyLimit (addToPreviousTrack now trk p) = historyLimit p"
      using Some by (simp add: addToPreviousTrack_def Let_def x_def)
    moreover have "distinct_adj (map f (take (historyLimit p) [x]))"
      unfolding take_map [symmetric] by (rule distinct_adj_take) simp
    ultimately show ?thesis
      by (simp add: history_ok_def f_def [symmetric])
  next
    case (Cons e es)
    show ?thesis
    proof (cases "identifier_info (info e) = identifier_info (info t)")
      case True
      then have "previousTracks (addToPreviousTrack now trk p)
                   = e\<lparr>replayCount := replayCount e + 1, playedAt := now\<rparr> # es
         \<and> historyLimit (addToPreviousTrack now trk p) = historyLimit p"
        using Some Cons by (simp add: addToPreviousTrack_def)
      moreover have "map f (e\<lparr>replayCount := replayCount e + 1, playedAt := now\<rparr> # es)
                   = map f (previousTracks p)"
        using Cons by (simp add: f_def)
      ultimately show ?thesis
        using len adj Cons by (simp add: history_ok_def f_def [symmetric])
    next
      case False
      then have res: "previousTracks (addToPreviousTrack now trk p)
                        = take (historyLimit p) (x # e # es)
         \<and> historyLimit (addToPreviousTrack now trk p) = historyLimit p"
        using Some Cons by (simp add: addToPreviousTrack_def Let_def x_def)
      have "f x \<noteq> f e" using False idx by (simp add: f_def)
      with adj Cons have "distinct_adj (map f (x # e # es))" by simp
      then have "distinct_adj (map f (take (historyLimit p) (x # e # es)))"
        unfolding take_map [symmetric] by (rule distinct_adj_take)
      with res show ?thesis
        by (simp add: history_ok_def f_def [symmetric])
    qed
  qed
qed

text \<open>
  Claim C8. If the history of a Player is within its limit and has no two neighbouring
  entries with the same identifier, then this still holds after \<^verbatim>\<open>addToPreviousTrack\<close>
  and after the whole \<^verbatim>\<open>TrackEnd\<close> handler; and when the ended track has the identifier of
  the head entry, the head entry gets \<open>replayCount + 1\<close> and the new \<open>playedAt\<close>, and no
  entry is prepended.
\<close>

theorem history_invariant:
  assumes "history_ok p"
  shows "history_ok (addToPreviousTrack now trk p) \<and>
         history_ok (trackEnd now rsv nextFor trk reason p) \<and>
         (\<forall>e es t. previousTracks p = e # es \<and> trk = Some t \<and>
              identifier_info (info e) = identifier_info (info t) \<longrightarrow>
            previousTracks (addToPreviousTrack now trk p) =
              e\<lparr>replayCount := replayCount e + 1, playedAt := now\<rparr> # es)"
proof -
  have a: "history_ok (addToPreviousTrack now trk p)"
    using assms by (rule history_ok_addToPreviousTrack)
  have b: "history_ok (trackEnd now rsv nextFor trk reason p)"
    using a history_ok_hist [OF hist_trackEnd] by simp
  have c: "\<forall>e es t. previousTracks p = e # es \<and> trk = Some t \<and>
              identifier_info (info e) = identifier_info (info t) \<longrightarrow>
            previousTracks (addToPreviousTrack now trk p) =
              e\<lparr>replayCount := replayCount e + 1, playedAt := now\<rparr> # es"
    by (simp add: addToPreviousTrack_def)
  from a b c show ?thesis by simp
qed

text \<open>
  The theorem at the sample Player once track A has ended at time 5: a second end of A at
  time 9 leaves one entry, with \<open>replayCount = 2\<close> and \<open>playedAt = 9\<close>.
\<close>

theorem history_invariant_witness:
  "history_ok (addToPreviousTrack 5 (Some trackA) demo_player) \<and>
   history_ok (addToPreviousTrack 9 (Some trackA) (addToPreviousTrack 5 (Some trackA) demo_player)) \<and>
   previousTracks (addToPreviousTrack 9 (Some trackA)
       (addToPreviousTrack 5 (Some trackA) demo_player)) =
     [\<lparr>encoded = encoded trackA, info = info trackA, playedAt = 9, replayCount = 2\<rparr>]"
proof -
  have prev: "previousTracks (addToPreviousTrack 5 (Some trackA) demo_player) =
      [\<lparr>encoded = encoded trackA, info = info trackA, playedAt = 5, replayCount = 1\<rparr>]"
    by (simp add: addToPreviousTrack_def demo_player_def createPlayer_def new_player_def
          demo_options_def connect_def demo_eura_def settled_def send_def emit_def Let_def
          truthy_def new_connection_def)
  have lim: "historyLimit (addToPreviousTrack 5 (Some trackA) demo_player) = 20"
    by (simp add: addToPreviousTrack_def demo_player_def createPlayer_def new_player_def
          demo_options_def connect_def demo_eura_def settled_def send_def emit_def Let_def
          truthy_def new_connection_def)
  have h: "history_ok (addToPreviousTrack 5 (Some trackA) demo_player)"
    by (simp add: history_ok_def prev lim)
  from history_invariant [OF h, of 9 "Some trackA"] prev h show ?thesis
    by simp
qed

section \<open>Voice handshake\<close>

text \<open>
  Claim C1, as stated, fails on scenario S1. The Player created by \<^verbatim>\<open>createConnection\<close>
  is already \<open>Connecting\<close> (set by \<^verbatim>\<open>connect\<close>); the \<^verbatim>\<open>VOICE_SERVER_UPDATE\<close> alone moves the
  Connection to \<open>Connected\<close>; and the one PATCH that is flushed carries the voice block
  copied at the server update, whose \<open>sessionId\<close> is still \<^verbatim>\<open>null\<close>.
\<close>

theorem voice_handshake_counterexample:
  "connectionState (connection demo_player) = Connecting \<and>
   connectionState (connection demo_server_updated) = Connected \<and>
   connectionState (connection demo_connected) = Connected \<and>
   region (connection demo_connected) = Some ''us-east'' \<and>
   requests (rest (fireConnUpdateTimeout 3 demo_connected)) =
     [\<lparr>req_method = PATCH, req_path = ''/v4/sessions/sid/players/1'',
       req_body = Some (no_update
         \<lparr>upd_voice := Some \<lparr>sessionId = None, endpoint = Some ''us-east42.example:443'',
                               token = Some ''T''\<rparr>,
          upd_volume := Some 100\<rparr>)\<rparr>]"
  by (simp add: demo_state_defs)

lemma server_update_result:
  assumes "guildId p \<in> players (eura p)" and "conn_batchUpdates (connection p)"
    and "batchUpdates p" and "truthy ep"
  shows "\<exists>p1. updateVoiceState t1 (VOICE_SERVER_UPDATE (guildId p) ep tok) p = Inr p1 \<and>
           connectionState (connection p1) = Connected \<and> connected p1 \<and>
           region (connection p1) = extractRegion ep \<and>
           voice (connection p1) = (voice (connection p))\<lparr>endpoint := ep, token := tok\<rparr> \<and>
           conn_updateQueue (connection p1) = conn_updateQueue (connection p) @
             [\<lparr>vu_voice = (voice (connection p))\<lparr>endpoint := ep, token := tok\<rparr>,
               vu_volume = volume p, vu_timestamp = t1\<rparr>] \<and>
           conn_updateTimeout (connection p1) \<and> conn_batchUpdates (connection p1) \<and>
           guildId p1 = guildId p \<and> eura p1 = eura p \<and> rest p1 = rest p"
  using assms
  by (simp add: updateVoiceState_def setServerUpdate_def Let_def pause_def queueUpdate_def
        conn_queueUpdate_def)

lemma state_update_result:
  assumes "guildId p \<in> players (eura p)" and "chan \<noteq> None"
  shows "\<exists>p2. updateVoiceState t2
              (VOICE_STATE_UPDATE (guildId p) (clientId (eura p)) chan sess sd sm) p = Inr p2 \<and>
           connectionState (connection p2) = Connected \<and> connected p2 \<and>
           region (connection p2) = region (connection p) \<and>
           voice (connection p2) =
             (voice (connection p))\<lparr>sessionId := (if truthy sess then sess else None)\<rparr> \<and>
           conn_updateQueue (connection p2) = conn_updateQueue (connection p) \<and>
           conn_updateTimeout (connection p2) = conn_updateTimeout (connection p) \<and>
           volume p2 = volume p \<and> player_path p2 = player_path p \<and>
           requests (rest p2) = requests (rest p)"
proof -
  from assms(2) obtain c where c: "chan = Some c" by auto
  show ?thesis
    using assms(1)
    by (simp add: c updateVoiceState_def setStateUpdate_def Let_def emit_def player_path_def)
qed

lemma flush_result:
  assumes "conn_updateTimeout (connection p)" and "conn_updateQueue (connection p) = us @ [u]"
  shows "requests (rest (fireConnUpdateTimeout t3 p)) =
           requests (rest p) @
             [\<lparr>req_method = PATCH, req_path = player_path p,
               req_body = Some (no_update\<lparr>upd_voice := Some (vu_voice u),
                                          upd_volume := Some (vu_volume u)\<rparr>)\<rparr>]"
  using assms
  by (simp add: fireConnUpdateTimeout_def conn_processUpdateQueue_def updatePlayerVoiceData_def
        updatePlayer_def makeRequest_def player_path_def emit_def Let_def)

text \<open>
  Claim C1, amended. For a registered Player (both batching flags on) that receives a
  \<^verbatim>\<open>VOICE_SERVER_UPDATE\<close> with a non-empty endpoint and then a \<^verbatim>\<open>VOICE_STATE_UPDATE\<close> of the
  bot with a channel: the Connection is \<open>Connected\<close> after the first update and stays so
  after the second, the region is the one extracted from the endpoint, the binding then
  holds session id, endpoint and token, and the flush issues exactly one PATCH to the
  Player's path, whose voice block carries the endpoint and the token.
\<close>

theorem voice_handshake:
  assumes "guildId p \<in> players (eura p)" and "conn_batchUpdates (connection p)"
    and "batchUpdates p" and "truthy ep" and "chan \<noteq> None"
  shows "\<exists>p1 p2 v.
           updateVoiceState t1 (VOICE_SERVER_UPDATE (guildId p) ep tok) p = Inr p1 \<and>
           connectionState (connection p1) = Connected \<and>
           region (connection p1) = extractRegion ep \<and>
           updateVoiceState t2
              (VOICE_STATE_UPDATE (guildId p) (clientId (eura p)) chan sess sd sm) p1 = Inr p2 \<and>
           connectionState (connection p2) = Connected \<and>
           region (connection p2) = extractRegion ep \<and>
           voice (connection p2) =
             \<lparr>sessionId = (if truthy sess then sess else None), endpoint = ep, token = tok\<rparr> \<and>
           requests (rest (fireConnUpdateTimeout t3 p2)) =
             requests (rest p) @
               [\<lparr>req_method = PATCH, req_path = player_path p,
                 req_body = Some (no_update\<lparr>upd_voice := Some v, upd_volume := Some (volume p)\<rparr>)\<rparr>] \<and>
           endpoint v = ep \<and> token v = tok"
proof -
  from server_update_result [OF assms(1-4), of t1 tok]
  obtain p1 where p1: "updateVoiceState t1 (VOICE_SERVER_UPDATE (guildId p) ep tok) p = Inr p1"
    "connectionState (connection p1) = Connected"
    "region (connection p1) = extractRegion ep"
    "voice (connection p1) = (voice (connection p))\<lparr>endpoint := ep, token := tok\<rparr>"
    "conn_updateQueue (connection p1) = conn_updateQueue (connection p) @
             [\<lparr>vu_voice = (voice (connection p))\<lparr>endpoint := ep, token := tok\<rparr>,
               vu_volume = volume p, vu_timestamp = t1\<rparr>]"
    "conn_updateTimeout (connection p1)"
    "guildId p1 = guildId p" "eura p1 = eura p" "rest p1 = rest p"
    by blast
  have reg: "guildId p1 \<in> players (eura p1)" using assms(1) p1(7,8) by simp
  from state_update_result [OF reg assms(5), of t2 sess sd sm]
  obtain p2 where p2: "updateVoiceState t2
              (VOICE_STATE_UPDATE (guildId p) (clientId (eura p)) chan sess sd sm) p1 = Inr p2"
    "connectionState (connection p2) = Connected"
    "region (connection p2) = region (connection p1)"
    "voice (connection p2) =
             (voice (connection p1))\<lparr>sessionId := (if truthy sess then sess else None)\<rparr>"
    "conn_updateQueue (connection p2) = conn_updateQueue (connection p1)"
    "conn_updateTimeout (connection p2) = conn_updateTimeout (connection p1)"
    "player_path p2 = player_path p1" "requests (rest p2) = requests (rest p1)"
    unfolding p1(7,8) by blast
  have path: "player_path p1 = player_path p"
    using p1(7,9) by (simp add: player_path_def)
  have fl: "requests (rest (fireConnUpdateTimeout t3 p2)) =
      requests (rest p) @
        [\<lparr>req_method = PATCH, req_path = player_path p,
          req_body = Some (no_update\<lparr>upd_voice :=
               Some ((voice (connection p))\<lparr>endpoint := ep, token := tok\<rparr>),
             upd_volume := Some (volume p)\<rparr>)\<rparr>]"
    using flush_result [of p2 "conn_updateQueue (connection p)" _ t3] p1(5,6,9) p2(5,6,7,8) path
    by simp
  have v: "voice (connection p2) =
      \<lparr>sessionId = (if truthy sess then sess else None), endpoint = ep, token = tok\<rparr>"
    unfolding p2(4) p1(4) by simp
  show ?thesis
    using p1(1,2,3) p2(1,2,3) v fl
    by (intro exI [of _ p1] exI [of _ p2]
          exI [of _ "(voice (connection p))\<lparr>endpoint := ep, token := tok\<rparr>"]) simp
qed

text \<open>Scenario S1 as an instance: the region is \<open>us-east\<close> and one PATCH is issued.\<close>

theorem voice_handshake_witness:
  "guildId demo_player \<in> players (eura demo_player) \<and>
   conn_batchUpdates (connection demo_player) \<and> batchUpdates demo_player \<and>
   truthy (Some ''us-east42.example:443'') \<and>
   (\<exists>p1 p2 v.
      updateVoiceState 1 (VOICE_SERVER_UPDATE ''1'' (Some ''us-east42.example:443'') (Some ''T''))
        demo_player = Inr p1 \<and>
      connectionState (connection p1) = Connected \<and>
      updateVoiceState 2 (VOICE_STATE_UPDATE ''1'' ''bot'' (Some ''VC'') (Some ''S'') False False)
        p1 = Inr p2 \<and>
      connectionState (connection p2) = Connected \<and>
      region (connection p2) = Some ''us-east'' \<and>
      voice (connection p2) =
        \<lparr>sessionId = Some ''S'', endpoint = Some ''us-east42.example:443'', token = Some ''T''\<rparr> \<and>
      requests (rest (fireConnUpdateTimeout 3 p2)) =
        [\<lparr>req_method = PATCH, req_path = ''/v4/sessions/sid/players/1'',
          req_body = Some (no_update\<lparr>upd_voice := Some v, upd_volume := Some 100\<rparr>)\<rparr>] \<and>
      endpoint v = Some ''us-east42.example:443'' \<and> token v = Some ''T'')"
proof -
  have h1: "guildId demo_player \<in> players (eura demo_player)" by (simp add: demo_defs)
  have h2: "conn_batchUpdates (connection demo_player)" by (simp add: demo_defs)
  have h3: "batchUpdates demo_player" by (simp add: demo_defs)
  have h4: "truthy (Some ''us-east42.example:443'')" by (simp add: truthy_def)
  have h5: "Some ''VC'' \<noteq> None" by simp
  have f: "guildId demo_player = ''1''" "clientId (eura demo_player) = ''bot''"
    "volume demo_player = 100" "requests (rest demo_player) = []"
    "player_path demo_player = ''/v4/sessions/sid/players/1''"
    by (simp_all add: demo_defs rest_defs)
  have r: "extractRegion (Some ''us-east42.example:443'') = Some ''us-east''"
    by (simp add: voice_defs)
  have t: "truthy (Some ''S'')" by (simp add: truthy_def)
  from voice_handshake [OF h1 h2 h3 h4 h5, of 1 "Some ''T''" 2 "Some ''S''" False False 3]
  have "\<exists>p1 p2 v.
      updateVoiceState 1 (VOICE_SERVER_UPDATE ''1'' (Some ''us-east42.example:443'') (Some ''T''))
        demo_player = Inr p1 \<and>
      connectionState (connection p1) = Connected \<and>
      updateVoiceState 2 (VOICE_STATE_UPDATE ''1'' ''bot'' (Some ''VC'') (Some ''S'') False False)
        p1 = Inr p2 \<and>
      connectionState (connection p2) = Connected \<and>
      region (connection p2) = Some ''us-east'' \<and>
      voice (connection p2) =
        \<lparr>sessionId = Some ''S'', endpoint = Some ''us-east42.example:443'', token = Some ''T''\<rparr> \<and>
      requests (rest (fireConnUpdateTimeout 3 p2)) =
        [\<lparr>req_method = PATCH, req_path = ''/v4/sessions/sid/players/1'',
          req_body = Some (no_update\<lparr>upd_voice := Some v, upd_volume := Some 100\<rparr>)\<rparr>] \<and>
      endpoint v = Some ''us-east42.example:443'' \<and> token v = Some ''T''"
    unfolding f r using t by auto
  with h1 h2 h3 h4 show ?thesis by simp
qed

section \<open>Commands\<close>

text \<open>
  Claim C6, as stated, fails: \<^verbatim>\<open>stop()\<close> does not clear the current track. On the sample
  Player playing A, the current track is still A after \<^verbatim>\<open>stop()\<close>.
\<close>

theorem stop_keeps_current_counterexample:
  "current (stop 5 demo_playing) = Some trackA \<and> current (stop 5 demo_playing) \<noteq> None"
  by (simp add: stop_def demo_state_defs)

text \<open>
  Claim C6, amended. \<^verbatim>\<open>stop()\<close> sets \<open>playing\<close> to false and the position to 0, leaves
  the current track and the queue as they are, and schedules an update with
  \<^verbatim>\<open>track.encoded = null\<close>: with batching it is appended to the pending updates and the
  timer is armed (and, when nothing else was pending, the flush issues exactly that
  PATCH); without batching the PATCH is issued at once.
\<close>

theorem stop_frame:
  "playing (stop now p) = False \<and> position (stop now p) = 0 \<and>
   current (stop now p) = current p \<and> queue (stop now p) = queue p \<and>
   (batchUpdates p \<longrightarrow>
      updateQueue (stop now p) =
        updateQueue p @ [no_update\<lparr>upd_track := Some None, upd_timestamp := Some now\<rparr>] \<and>
      updateTimeout (stop now p) \<and>
      (updateQueue p = [] \<longrightarrow>
         requests (rest (fireUpdateTimeout (stop now p))) =
           requests (rest p) @
             [\<lparr>req_method = PATCH, req_path = player_path p,
               req_body = Some (no_update\<lparr>upd_track := Some None, upd_timestamp := Some now\<rparr>)\<rparr>])) \<and>
   (\<not> batchUpdates p \<longrightarrow>
      requests (rest (stop now p)) =
        requests (rest p) @
          [\<lparr>req_method = PATCH, req_path = player_path p,
            req_body = Some (no_update\<lparr>upd_track := Some None\<rparr>)\<rparr>])"
  by (simp add: stop_def queueUpdate_def performUpdate_def settled_def updatePlayer_def
        makeRequest_def emit_def player_path_def fireUpdateTimeout_def processUpdateQueue_def
        assign_def no_update_def)

theorem stop_frame_witness:
  "batchUpdates demo_playing \<and> current (stop 5 demo_playing) = Some trackA \<and>
   queue (stop 5 demo_playing) = [Some trackB] \<and> \<not> playing (stop 5 demo_playing) \<and>
   last (updateQueue (stop 5 demo_playing)) =
     no_update\<lparr>upd_track := Some None, upd_timestamp := Some 5\<rparr>"
proof -
  have b: "batchUpdates demo_playing" by (simp add: demo_state_defs)
  have c: "current demo_playing = Some trackA" by (simp add: demo_state_defs)
  have q: "queue demo_playing = [Some trackB]" by (simp add: demo_state_defs)
  from stop_frame [of 5 demo_playing] b c q show ?thesis by simp
qed

text \<open>
  Claim C3 on the code: \<^verbatim>\<open>pause(false)\<close> on the freshly created Player, which has no
  current track, leaves \<open>playing = true\<close> with \<open>current = null\<close>.
\<close>

theorem pause_false_without_track:
  "current demo_player = None \<and> \<not> playing demo_player \<and>
   playing (pause 1 False demo_player) \<and> current (pause 1 False demo_player) = None"
  by (simp add: pause_def demo_state_defs)

text \<open>
  Claim C4 on the code: \<^verbatim>\<open>seek(-1)\<close> on the sample Player playing A (length 1000 ms)
  raises nothing; it sets the position to -1 and schedules \<^verbatim>\<open>position = -1\<close>.
\<close>

theorem seek_negative_accepted:
  "0 < length_info (info trackA) \<and> current demo_playing = Some trackA \<and>
   (case seek 5 (- 1) demo_playing of
      Inl _ \<Rightarrow> False
    | Inr q \<Rightarrow> position q = - 1 \<and>
        last (updateQueue q) = no_update\<lparr>upd_position := Some (- 1), upd_timestamp := Some 5\<rparr>)"
  by (simp add: seek_def demo_state_defs)

text \<open>
  Claim C10. When the Player is paused and its Connection is \<open>Connecting\<close>, a
  \<^verbatim>\<open>VOICE_SERVER_UPDATE\<close> with a non-empty endpoint runs \<^verbatim>\<open>pause(false)\<close> on the Player
  holding the new endpoint, token and region, then marks the Connection \<open>Connected\<close> and
  queues the voice update; in the result the Player is not paused and is playing, and
  \<^verbatim>\<open>paused = false\<close> is scheduled for the node. The current track is not consulted.
\<close>

theorem server_update_unpauses:
  assumes "paused p" and "connectionState (connection p) = Connecting" and "truthy ep"
    and "batchUpdates p"
  shows "setServerUpdate now ep tok p =
           Inr (conn_queueUpdate now
             ((pause now False
                 (p\<lparr>connection := (connection p)
                      \<lparr>voice := (voice (connection p))\<lparr>endpoint := ep, token := tok\<rparr>,
                       region := extractRegion ep\<rparr>\<rparr>))
               \<lparr>connection := (connection p)
                    \<lparr>voice := (voice (connection p))\<lparr>endpoint := ep, token := tok\<rparr>,
                     region := extractRegion ep, connectionState := Connected,
                     lastUpdate := now, conn_reconnectAttempts := 0\<rparr>,
                connected := True\<rparr>)) \<and>
         (case setServerUpdate now ep tok p of
            Inl _ \<Rightarrow> False
          | Inr q \<Rightarrow> \<not> paused q \<and> playing q \<and> connected q \<and>
              connectionState (connection q) = Connected \<and> current q = current p \<and>
              updateQueue q =
                updateQueue p @ [no_update\<lparr>upd_paused := Some False, upd_timestamp := Some now\<rparr>] \<and>
              updateTimeout q)"
  using assms
  by (simp add: setServerUpdate_def Let_def pause_def queueUpdate_def conn_queueUpdate_def
        settled_def updatePlayerVoiceData_def updatePlayer_def makeRequest_def emit_def
        split: prod.splits)

text \<open>
  An instance: the sample Player, paused while connecting and without a current track, is
  playing after the server update.
\<close>

theorem server_update_unpauses_witness:
  "paused (pause 1 True demo_player) \<and>
   connectionState (connection (pause 1 True demo_player)) = Connecting \<and>
   (case setServerUpdate 2 (Some ''us-east42.example:443'') (Some ''T'') (pause 1 True demo_player) of
      Inl _ \<Rightarrow> False
    | Inr q \<Rightarrow> \<not> paused q \<and> playing q \<and> current q = None \<and>
        connectionState (connection q) = Connected)"
proof -
  have a: "paused (pause 1 True demo_player)" by (simp add: pause_def demo_state_defs)
  have b: "connectionState (connection (pause 1 True demo_player)) = Connecting"
    by (simp add: pause_def demo_state_defs)
  have c: "truthy (Some ''us-east42.example:443'')" by (simp add: truthy_def)
  have d: "batchUpdates (pause 1 True demo_player)" by (simp add: pause_def demo_state_defs)
  have e: "current (pause 1 True demo_player) = None" by (simp add: pause_def demo_state_defs)
  from server_update_unpauses [OF a b c d, of 2 "Some ''T''"] a b e show ?thesis
    by (simp split: sum.splits)
qed

section \<open>Destroy\<close>





section \<open>The TrackEnd decision\<close>

lemma control_emit: "control (emit ev p) = control p"
  by (simp add: control_def emit_def)

lemma control_updatePlayer: "control (snd (updatePlayer d p)) = control p"
  by (simp add: control_def updatePlayer_def makeRequest_def)

lemma control_fadeOutSteps: "control (fadeOutSteps n d c p) = control p"
  by (induction n arbitrary: c p) (simp_all add: Let_def control_updatePlayer)

lemma control_fadeOut: "control (fadeOut p) = control p"
  by (simp add: fadeOut_def Let_def control_fadeOutSteps)

lemma control_addToPreviousTrack: "control (addToPreviousTrack now trk p) = control p"
  by (simp add: control_def addToPreviousTrack_def Let_def split: option.splits list.splits)

lemma control_not_playing: "control (p\<lparr>playing := False\<rparr>) = control p"
  by (simp add: control_def)

lemma fadeInMs_not_playing: "fadeInMs (p\<lparr>playing := False\<rparr>) = fadeInMs p"
  "queue (p\<lparr>playing := False\<rparr>) = queue p"
  by simp_all

text \<open>
  Claim C2. On a \<^verbatim>\<open>TrackEnd\<close> event with reason \<open>reason\<close> the handler first records the
  ended (current) track in the history and emits \<^verbatim>\<open>trackEnd\<close>, reaching the state \<open>p3\<close>
  (queue and current track untouched), and then decides in this order: on \<^verbatim>\<open>REPLACED\<close>
  it emits the observation and stops, leaving queue, current track and pending updates as
  they were; else when not connected it emits \<^verbatim>\<open>queueEnd\<close>; else with loop=track and a reason
  other than \<^verbatim>\<open>STOPPED\<close> it puts the ended track at the queue head and calls \<^verbatim>\<open>play()\<close>; else
  with loop=queue and a reason other than \<^verbatim>\<open>STOPPED\<close> it puts it at the queue tail and
  calls \<^verbatim>\<open>play()\<close>; else with a non-empty queue it calls \<^verbatim>\<open>play()\<close>; else with autoplay on
  it calls the autoplay resolver; else it emits \<^verbatim>\<open>queueEnd\<close>.
\<close>

theorem trackEnd_decision:
  assumes "p3 = emit TrackEndEv (addToPreviousTrack now (current p)
                  (if queue p \<noteq> [] \<and> reason = ''FINISHED'' \<and> 0 < fadeInMs p
                   then fadeOut (p\<lparr>playing := False\<rparr>) else p\<lparr>playing := False\<rparr>))"
  shows "handleEvent now rsv nextFor (TrackEndEvent reason) p =
           (if reason = ''REPLACED'' then emit TrackEndEv p3
            else if \<not> connected p then emit QueueEndEv p3
            else if loop p = LoopTrack \<and> reason \<noteq> ''STOPPED''
            then settle_play now rsv (p3\<lparr>queue := current p # queue p\<rparr>)
            else if loop p = LoopQueue \<and> reason \<noteq> ''STOPPED''
            then settle_play now rsv (p3\<lparr>queue := queue p @ [current p]\<rparr>)
            else if queue p \<noteq> [] then settle_play now rsv p3
            else if isAutoplay p then autoplay now rsv nextFor p3
            else emit QueueEndEv p3) \<and>
         previousTracks p3 = previousTracks (addToPreviousTrack now (current p) p) \<and>
         queue p3 = queue p \<and> current p3 = current p \<and>
         (reason = ''REPLACED'' \<longrightarrow>
            queue (handleEvent now rsv nextFor (TrackEndEvent reason) p) = queue p \<and>
            current (handleEvent now rsv nextFor (TrackEndEvent reason) p) = current p \<and>
            updateQueue (handleEvent now rsv nextFor (TrackEndEvent reason) p) = updateQueue p)"
proof -
  define p1 where "p1 = (if queue (p\<lparr>playing := False\<rparr>) \<noteq> [] \<and> reason = ''FINISHED''
                    \<and> 0 < fadeInMs (p\<lparr>playing := False\<rparr>)
                 then fadeOut (p\<lparr>playing := False\<rparr>) else p\<lparr>playing := False\<rparr>)"
  have p3: "p3 = emit TrackEndEv (addToPreviousTrack now (current p) p1)"
    unfolding assms p1_def fadeInMs_not_playing ..
  have c1: "control p1 = control p"
    by (simp add: p1_def control_fadeOut control_not_playing)
  have c3: "control p3 = control p"
    by (simp add: p3 control_emit control_addToPreviousTrack c1)
  then have f3: "connected p3 = connected p" "loop p3 = loop p" "queue p3 = queue p"
    "isAutoplay p3 = isAutoplay p" "current p3 = current p" "updateQueue p3 = updateQueue p"
    by (simp_all add: control_def)
  have eq: "handleEvent now rsv nextFor (TrackEndEvent reason) p =
           (if reason = ''REPLACED'' then emit TrackEndEv p3
            else if \<not> connected p then emit QueueEndEv p3
            else if loop p = LoopTrack \<and> reason \<noteq> ''STOPPED''
            then settle_play now rsv (p3\<lparr>queue := current p # queue p\<rparr>)
            else if loop p = LoopQueue \<and> reason \<noteq> ''STOPPED''
            then settle_play now rsv (p3\<lparr>queue := queue p @ [current p]\<rparr>)
            else if queue p \<noteq> [] then settle_play now rsv p3
            else if isAutoplay p then autoplay now rsv nextFor p3
            else emit QueueEndEv p3)"
    using trackEnd_unfold [OF p1_def p3, of rsv nextFor]
    by (simp only: handleEvent_def node_event.case f3)
  have h1: "hist p1 = hist p" by (simp add: p1_def hist_fadeOut) (simp add: hist_def)
  have "hist p3 = hist (addToPreviousTrack now (current p) p)"
    unfolding p3 hist_emit using h1 by (rule hist_addToPreviousTrack_cong)
  then have h: "previousTracks p3 = previousTracks (addToPreviousTrack now (current p) p)"
    by (simp add: hist_def)
  have "control (emit TrackEndEv p3) = control p" by (simp add: control_emit c3)
  then have r: "queue (emit TrackEndEv p3) = queue p" "current (emit TrackEndEv p3) = current p"
    "updateQueue (emit TrackEndEv p3) = updateQueue p"
    by (simp_all add: control_def)
  have rep: "reason = ''REPLACED'' \<longrightarrow>
            queue (handleEvent now rsv nextFor (TrackEndEvent reason) p) = queue p \<and>
            current (handleEvent now rsv nextFor (TrackEndEvent reason) p) = current p \<and>
            updateQueue (handleEvent now rsv nextFor (TrackEndEvent reason) p) = updateQueue p"
  proof
    assume "reason = ''REPLACED''"
    with eq have "handleEvent now rsv nextFor (TrackEndEvent reason) p = emit TrackEndEv p3"
      by simp
    with r show "queue (handleEvent now rsv nextFor (TrackEndEvent reason) p) = queue p \<and>
            current (handleEvent now rsv nextFor (TrackEndEvent reason) p) = current p \<and>
            updateQueue (handleEvent now rsv nextFor (TrackEndEvent reason) p) = updateQueue p"
      by simp
  qed
  from eq h f3(3,5) rep show ?thesis by (intro conjI)
qed

text \<open>
  Scenario S3 as an instance: the sample Player plays A with B queued; when A finishes, B
  is current, the queue is empty and the history is [A].
\<close>

theorem trackEnd_decision_witness:
  "current (handleEvent 9 Resolved (\<lambda>e. LookupNothing) (TrackEndEvent ''FINISHED'') demo_playing)
     = Some trackB \<and>
   queue (handleEvent 9 Resolved (\<lambda>e. LookupNothing) (TrackEndEvent ''FINISHED'') demo_playing)
     = [] \<and>
   previousTracks
     (handleEvent 9 Resolved (\<lambda>e. LookupNothing) (TrackEndEvent ''FINISHED'') demo_playing)
     = [\<lparr>encoded = encoded trackA, info = info trackA, playedAt = 9, replayCount = 1\<rparr>]"
proof -
  have f: "connected demo_playing" "loop demo_playing = LoopNone"
    "queue demo_playing = [Some trackB]" "current demo_playing = Some trackA"
    "fadeInMs demo_playing = 0"
    by (simp_all add: demo_state_defs)
  define p3 where "p3 = emit TrackEndEv (addToPreviousTrack 9 (current demo_playing)
                  (if queue demo_playing \<noteq> [] \<and> ''FINISHED'' = ''FINISHED'' \<and> 0 < fadeInMs demo_playing
                   then fadeOut (demo_playing\<lparr>playing := False\<rparr>) else demo_playing\<lparr>playing := False\<rparr>))"
  have a: "handleEvent 9 Resolved (\<lambda>e. LookupNothing) (TrackEndEvent ''FINISHED'') demo_playing
      = settle_play 9 Resolved p3"
    using trackEnd_decision [OF p3_def, of Resolved "\<lambda>e. LookupNothing"] f by simp
  have b: "current (settle_play 9 Resolved p3) = Some trackB"
    "queue (settle_play 9 Resolved p3) = []"
    "previousTracks (settle_play 9 Resolved p3)
       = [\<lparr>encoded = encoded trackA, info = info trackA, playedAt = 9, replayCount = 1\<rparr>]"
    unfolding p3_def by (simp_all add: addToPreviousTrack_def demo_state_defs)
  show ?thesis unfolding a using b by simp
qed

section \<open>Bassboost\<close>

text \<open>
  Claim C7 on the code: \<^verbatim>\<open>setBassboost(true, {value: 2})\<close> on the sample Player sets an
  equalizer of 13 bands (not 15), each with gain \<open>2 * (1.25/9) - 0.25 = 1/36\<close>, where the
  claimed formula \<open>(2 - 1) * (1.25/9) - 0.25\<close> gives \<open>-1/9\<close>.
\<close>

theorem bassboost_two:
  "(case setBassboost True (Some 2) demo_player of
      Inl _ \<Rightarrow> False
    | Inr q \<Rightarrow>
        equalizer (filters q) = map (\<lambda>i. \<lparr>band = i, gain = 1 / 36\<rparr>) [0..<13] \<and>
        length (equalizer (filters q)) = 13 \<and>
        bassboost (filters q) = Some 2) \<and>
   (2 - 1) * (125 / 100 / 9) - 25 / 100 = (- 1 / 9 :: rat)"
  by (simp add: setBassboost_def setEqualizer_def updateFilters_def js_or_def demo_state_defs)

section \<open>Resolve\<close>

text \<open>
  Claim C9. For a query that is not a URL and whose first lookup (path \<open>p1\<close>) returns an
  empty result, \<^verbatim>\<open>resolve\<close> next requests the Spotify track URL of the query (\<open>p2\<close>); when
  that answers with a non-empty response, this response is the one returned and nothing
  else is requested; when it is empty again, the YouTube watch URL (\<open>p3\<close>) is requested
  and its response is the one returned.
\<close>

theorem resolve_fallback:
  assumes "\<not> is_url query"
    and "respond n (loadtracks n (encodeURIComponent (query_source dflt source @ '':'' @ query)))
           = Reply r1"
    and "no_matches r1"
    and "p1 = loadtracks n (encodeURIComponent (query_source dflt source @ '':'' @ query))"
    and "p2 = loadtracks n (''https://open.spotify.com/track/'' @ query)"
    and "p3 = loadtracks n (''https://www.youtube.com/watch?v='' @ query)"
  shows "take 2 (snd (resolve True dflt (Some n) query source)) = [p1, p2] \<and>
         (\<forall>r2. respond n p2 = Reply r2 \<and> \<not> no_matches r2 \<longrightarrow>
            resolve True dflt (Some n) query source = (finish n r2, [p1, p2])) \<and>
         (\<forall>r2 r3. respond n p2 = Reply r2 \<and> no_matches r2 \<and> respond n p3 = Reply r3 \<longrightarrow>
            resolve True dflt (Some n) query source = (finish n r3, [p1, p2, p3]))"
proof -
  have nm: "no_matches r1" by (rule assms(3))
  have ne: "loadType r1 \<noteq> ''error''" using assms(3) by (auto simp: no_matches_def)
  have eq: "resolve True dflt (Some n) query source = identifier_fallback n query r1 [p1]"
    using assms(1,2) ne by (simp add: resolve_def Let_def assms(4))
  have a: "take 2 (snd (identifier_fallback n query r1 [p1])) = [p1, p2]"
    using nm by (simp add: identifier_fallback_def Let_def assms(5) split: reply.splits)
  have b: "\<forall>r2. respond n p2 = Reply r2 \<and> \<not> no_matches r2 \<longrightarrow>
            identifier_fallback n query r1 [p1] = (finish n r2, [p1, p2])"
    using nm by (simp add: identifier_fallback_def Let_def assms(5))
  have c: "\<forall>r2 r3. respond n p2 = Reply r2 \<and> no_matches r2 \<and> respond n p3 = Reply r3 \<longrightarrow>
            identifier_fallback n query r1 [p1] = (finish n r3, [p1, p2, p3])"
    using nm by (simp add: identifier_fallback_def Let_def assms(5,6))
  from a b c show ?thesis unfolding eq by (intro conjI)
qed

text \<open>Scenario S6 as an instance: \<^verbatim>\<open>abc123\<close> on the sample node takes all three lookups.\<close>

theorem resolve_fallback_witness:
  "\<not> is_url ''abc123'' \<and>
   snd (resolve True ''ytsearch'' (Some demo_node) ''abc123'' None) =
     [''/v4/loadtracks?identifier=ytsearch%3Aabc123'',
      ''/v4/loadtracks?identifier=https://open.spotify.com/track/abc123'',
      ''/v4/loadtracks?identifier=https://www.youtube.com/watch?v=abc123''] \<and>
   fst (resolve True ''ytsearch'' (Some demo_node) ''abc123'' None) =
     Inr \<lparr>res_loadType = ''track'', res_tracks = [trackA], res_playlistInfo = None\<rparr>"
proof -
  have u: "\<not> is_url ''abc123''" by (simp add: is_url_def starts_with_def)
  have e: "encodeURIComponent (query_source ''ytsearch'' None @ '':'' @ ''abc123'')
             = ''ytsearch%3Aabc123''"
    by (simp add: encodeURIComponent_def query_source_def unreserved_def is_upper_def is_lower_def
          is_digit_def hex_digit_def)
  have p1: "loadtracks demo_node (encodeURIComponent (query_source ''ytsearch'' None @ '':'' @ ''abc123''))
       = ''/v4/loadtracks?identifier=ytsearch%3Aabc123''"
    unfolding e by (simp add: loadtracks_def demo_node_def)
  have p2: "loadtracks demo_node (''https://open.spotify.com/track/'' @ ''abc123'')
       = ''/v4/loadtracks?identifier=https://open.spotify.com/track/abc123''"
    by (simp add: loadtracks_def demo_node_def)
  have p3: "loadtracks demo_node (''https://www.youtube.com/watch?v='' @ ''abc123'')
       = ''/v4/loadtracks?identifier=https://www.youtube.com/watch?v=abc123''"
    by (simp add: loadtracks_def demo_node_def)
  have r1: "respond demo_node ''/v4/loadtracks?identifier=ytsearch%3Aabc123'' = Reply V4Empty"
    by (simp add: demo_node_def)
  have r2: "respond demo_node ''/v4/loadtracks?identifier=https://open.spotify.com/track/abc123''
       = Reply V4Empty"
    by (simp add: demo_node_def)
  have r3: "respond demo_node ''/v4/loadtracks?identifier=https://www.youtube.com/watch?v=abc123''
       = Reply (V4Track trackA)"
    by (simp add: demo_node_def)
  have nm: "no_matches V4Empty" by (simp add: no_matches_def loadType_def)
  have fin: "finish demo_node (V4Track trackA) =
      Inr \<lparr>res_loadType = ''track'', res_tracks = [trackA], res_playlistInfo = None\<rparr>"
    by (simp add: finish_def loadType_def demo_node_def)
  from resolve_fallback [OF u, of demo_node "''ytsearch''" None V4Empty,
         unfolded p1 p2 p3, OF r1 nm refl refl refl]
  have "resolve True ''ytsearch'' (Some demo_node) ''abc123'' None =
     (finish demo_node (V4Track trackA),
      [''/v4/loadtracks?identifier=ytsearch%3Aabc123'',
       ''/v4/loadtracks?identifier=https://open.spotify.com/track/abc123'',
       ''/v4/loadtracks?identifier=https://www.youtube.com/watch?v=abc123''])"
    using r2 r3 nm by blast
  with u fin show ?thesis by simp
qed

end
